theory Spec2Isabelle
  imports Complex_Main
begin

section \<open>JavaScript values\<close>

text \<open>
  The proxy is an Express application. \<^verbatim>\<open>src/server.js\<close> holds two revisions of it
  one after the other; the model follows the second, the one with races and the HTML
  fallback (from line 191 on), and takes the \<^verbatim>\<open>/suggest\<close> handlers of the two earlier
  revisions in \<^verbatim>\<open>src/unnamed\<close> beside it. The handlers work on parsed JSON, so the
  model starts with the values of the language: strings are lists of UTF-16 code units, numbers are finite
  values, \<^verbatim>\<open>NaN\<close> and the two infinities, and a parsed JSON document is a tree.
  A finite number is written as the rational it denotes. An object is the list of its
  own properties in enumeration order.
\<close>

type_synonym jsstring = "nat list"

definition lit :: "string \<Rightarrow> jsstring" where
  "lit s = map of_char s"

datatype jsnum = Fin rat | NaN | PosInf | NegInf

datatype jsval =
    JUndef
  | JNull
  | JBool bool
  | JNum jsnum
  | JStr jsstring
  | JArr "jsval list"
  | JObj "(jsstring \<times> jsval) list"

datatype exn =
    TypeError | RangeError | URIError | SyntaxError | FetchError | AggregateError | NoUpstream

fun nullish :: "jsval \<Rightarrow> bool" where
  "nullish JUndef = True"
| "nullish JNull = True"
| "nullish _ = False"

text \<open>Truthiness, as \<^verbatim>\<open>if (x)\<close>, \<^verbatim>\<open>x || y\<close> and \<^verbatim>\<open>filter(Boolean)\<close> decide it.\<close>

fun truthy :: "jsval \<Rightarrow> bool" where
  "truthy JUndef = False"
| "truthy JNull = False"
| "truthy (JBool b) = b"
| "truthy (JNum n) = (n \<noteq> Fin 0 \<and> n \<noteq> NaN)"
| "truthy (JStr s) = (s \<noteq> [])"
| "truthy (JArr _) = True"
| "truthy (JObj _) = True"

text \<open>\<^verbatim>\<open>a ?? b\<close> and \<^verbatim>\<open>a || b\<close>.\<close>

definition nc :: "jsval \<Rightarrow> jsval \<Rightarrow> jsval" where
  "nc a b = (if nullish a then b else a)"

definition lor :: "jsval \<Rightarrow> jsval \<Rightarrow> jsval" where
  "lor a b = (if truthy a then a else b)"

text \<open>
  Reading a named property of a value that is neither \<^verbatim>\<open>null\<close> nor
  \<^verbatim>\<open>undefined\<close>. Only an object parsed from JSON has own properties with the names the
  program reads; none of those names is defined on the prototypes of strings, numbers,
  booleans or arrays, so every other receiver gives \<^verbatim>\<open>undefined\<close>.
\<close>

fun field :: "jsval \<Rightarrow> jsstring \<Rightarrow> jsval" where
  "field (JObj kvs) k = (case map_of kvs k of None \<Rightarrow> JUndef | Some v \<Rightarrow> v)"
| "field _ k = JUndef"

text \<open>\<^verbatim>\<open>v.k\<close> throws on \<^verbatim>\<open>null\<close> and \<^verbatim>\<open>undefined\<close>; \<^verbatim>\<open>v?.k\<close> does not.\<close>

definition getprop :: "jsval \<Rightarrow> jsstring \<Rightarrow> exn + jsval" where
  "getprop v k = (if nullish v then Inl TypeError else Inr (field v k))"

definition opt :: "jsval \<Rightarrow> jsstring \<Rightarrow> jsval" where
  "opt v k = (if nullish v then JUndef else field v k)"

fun is_array :: "jsval \<Rightarrow> bool" where
  "is_array (JArr _) = True"
| "is_array _ = False"

fun dec_digits :: "nat \<Rightarrow> jsstring" where
  "dec_digits n = (if n < 10 then [48 + n] else dec_digits (n div 10) @ [48 + n mod 10])"

text \<open>
  \<^verbatim>\<open>v[i]\<close> for a receiver that is not nullish: an element of an array, a one-unit
  string of a string, the property named by the index of an object.
\<close>

fun elem :: "jsval \<Rightarrow> nat \<Rightarrow> jsval" where
  "elem (JArr xs) i = (if i < length xs then xs ! i else JUndef)"
| "elem (JStr s) i = (if i < length s then JStr [s ! i] else JUndef)"
| "elem (JObj kvs) i = field (JObj kvs) (dec_digits i)"
| "elem _ i = JUndef"

definition opt_elem :: "jsval \<Rightarrow> nat \<Rightarrow> jsval" where
  "opt_elem v i = (if nullish v then JUndef else elem v i)"

text \<open>\<^verbatim>\<open>xs.map(f)\<close> where \<^verbatim>\<open>f\<close> may throw: the first exception ends the traversal.\<close>

fun map_try :: "('a \<Rightarrow> exn + 'b) \<Rightarrow> 'a list \<Rightarrow> exn + 'b list" where
  "map_try f [] = Inr []"
| "map_try f (x # xs) =
     (case f x of
        Inl e \<Rightarrow> Inl e
      | Inr y \<Rightarrow> (case map_try f xs of Inl e \<Rightarrow> Inl e | Inr ys \<Rightarrow> Inr (y # ys)))"

subsection \<open>Strings to numbers\<close>

text \<open>White space and line terminators, the code units \<^verbatim>\<open>trim\<close> strips.\<close>

definition is_ws :: "nat \<Rightarrow> bool" where
  "is_ws c = (c \<in> set [9, 10, 11, 12, 13, 32, 160, 5760, 8232, 8233, 8239, 8287, 12288, 65279]
              \<or> (8192 \<le> c \<and> c \<le> 8202))"

definition trim :: "jsstring \<Rightarrow> jsstring" where
  "trim s = rev (dropWhile is_ws (rev (dropWhile is_ws s)))"

definition digit_of :: "nat \<Rightarrow> nat \<Rightarrow> nat option" where
  "digit_of base c =
     (let d = (if 48 \<le> c \<and> c \<le> 57 then Some (c - 48)
               else if 97 \<le> c \<and> c \<le> 102 then Some (c - 87)
               else if 65 \<le> c \<and> c \<le> 70 then Some (c - 55)
               else None)
      in case d of None \<Rightarrow> None | Some v \<Rightarrow> if v < base then Some v else None)"

fun digits_acc :: "nat \<Rightarrow> nat \<Rightarrow> nat list \<Rightarrow> nat option" where
  "digits_acc base a [] = Some a"
| "digits_acc base a (c # cs) =
     (case digit_of base c of None \<Rightarrow> None | Some d \<Rightarrow> digits_acc base (a * base + d) cs)"

definition parse_digits :: "nat \<Rightarrow> nat list \<Rightarrow> nat option" where
  "parse_digits base cs = (if cs = [] then None else digits_acc base 0 cs)"

definition opt_digits :: "nat list \<Rightarrow> nat option" where
  "opt_digits cs = (if cs = [] then Some 0 else digits_acc 10 0 cs)"

text \<open>The mantissa: digits, digits with a fraction, or a fraction alone.\<close>

definition parse_mantissa :: "nat list \<Rightarrow> rat option" where
  "parse_mantissa m =
     (let ip = takeWhile (\<lambda>c. c \<noteq> 46) m; rest = dropWhile (\<lambda>c. c \<noteq> 46) m
      in if rest = [] then map_option of_nat (parse_digits 10 ip)
         else let fp = tl rest
              in if ip = [] \<and> fp = [] then None
                 else (case opt_digits ip of
                         None \<Rightarrow> None
                       | Some i \<Rightarrow>
                           (case opt_digits fp of
                              None \<Rightarrow> None
                            | Some f \<Rightarrow> Some (of_nat i + of_nat f / 10 ^ length fp))))"

definition parse_exponent :: "nat list \<Rightarrow> int option" where
  "parse_exponent e =
     (case e of
        c # ds \<Rightarrow>
          (if c = 43 then map_option int (parse_digits 10 ds)
           else if c = 45 then map_option (\<lambda>n. - int n) (parse_digits 10 ds)
           else map_option int (parse_digits 10 e))
      | [] \<Rightarrow> None)"

definition scale10 :: "rat \<Rightarrow> int \<Rightarrow> rat" where
  "scale10 x e = (if 0 \<le> e then x * 10 ^ nat e else x / 10 ^ nat (- e))"

definition parse_decimal :: "nat list \<Rightarrow> rat option" where
  "parse_decimal r =
     (let m = takeWhile (\<lambda>c. c \<noteq> 101 \<and> c \<noteq> 69) r; rest = dropWhile (\<lambda>c. c \<noteq> 101 \<and> c \<noteq> 69) r
      in case parse_mantissa m of
           None \<Rightarrow> None
         | Some x \<Rightarrow>
             (if rest = [] then Some x
              else map_option (scale10 x) (parse_exponent (tl rest))))"

fun negate :: "jsnum \<Rightarrow> jsnum" where
  "negate (Fin x) = Fin (- x)"
| "negate PosInf = NegInf"
| "negate NegInf = PosInf"
| "negate NaN = NaN"

definition parse_unsigned :: "nat list \<Rightarrow> jsnum option" where
  "parse_unsigned r =
     (if r = lit ''Infinity'' then Some PosInf else map_option Fin (parse_decimal r))"

definition radix_of :: "nat \<Rightarrow> nat option" where
  "radix_of c =
     (if c = 98 \<or> c = 66 then Some 2
      else if c = 111 \<or> c = 79 then Some 8
      else if c = 120 \<or> c = 88 then Some 16
      else None)"

definition parse_signed :: "nat list \<Rightarrow> jsnum option" where
  "parse_signed s =
     (case s of
        c # r \<Rightarrow>
          (if c = 43 then parse_unsigned r
           else if c = 45 then map_option negate (parse_unsigned r)
           else parse_unsigned s)
      | [] \<Rightarrow> None)"

text \<open>
  The numeric-string grammar, on a string already trimmed: \<open>None\<close> when the string is
  no literal of the grammar, otherwise the mathematical value of the literal (the
  empty string counts as 0), not yet rounded.
\<close>

definition literal_value :: "jsstring \<Rightarrow> jsnum option" where
  "literal_value s =
     (case s of
        [] \<Rightarrow> Some (Fin 0)
      | [c] \<Rightarrow> parse_signed s
      | c # x # ds \<Rightarrow>
          (case (if c = 48 then radix_of x else None) of
             Some b \<Rightarrow> map_option (\<lambda>n. Fin (of_nat n)) (parse_digits b ds)
           | None \<Rightarrow> parse_signed s))"

subsection \<open>Rounding to binary64\<close>

text \<open>
  A finite number of the language is a binary64 value. \<open>round64\<close> takes a rational to
  the nearest one, ties to the even significand: with \<open>e\<close> the binary exponent of the
  magnitude, not below that of the smallest normal number, the values are the multiples
  of \<open>2 ^ (e - 52)\<close>; a result of \<open>2 ^ 1024\<close> or more is an infinity. The sign of zero
  is not kept: nothing in the program observes it.
\<close>

fun bitlen :: "nat \<Rightarrow> nat" where
  "bitlen n = (if n = 0 then 0 else Suc (bitlen (n div 2)))"

definition pow2 :: "int \<Rightarrow> rat" where
  "pow2 k = (if 0 \<le> k then 2 ^ nat k else 1 / 2 ^ nat (- k))"

definition round_half_even :: "rat \<Rightarrow> int" where
  "round_half_even x =
     (let f = \<lfloor>x\<rfloor>; d = x - of_int f
      in if d < 1 / 2 then f
         else if 1 / 2 < d then f + 1
         else if even f then f else f + 1)"

definition binary_exponent :: "rat \<Rightarrow> int" where
  "binary_exponent a =
     (let b = int (bitlen (nat (fst (quotient_of a)))) - int (bitlen (nat (snd (quotient_of a))))
      in if pow2 b \<le> a then b else b - 1)"

definition round64 :: "rat \<Rightarrow> jsnum" where
  "round64 x =
     (if x = 0 then Fin 0
      else let a = \<bar>x\<bar>;
               ulp = pow2 (max (binary_exponent a) (- 1022) - 52);
               y = of_int (round_half_even (a / ulp)) * ulp
           in if pow2 1024 \<le> y then (if x < 0 then NegInf else PosInf)
              else Fin (if x < 0 then - y else y))"

fun to_double :: "jsnum \<Rightarrow> jsnum" where
  "to_double (Fin x) = round64 x"
| "to_double n = n"

text \<open>
  \<^verbatim>\<open>Number(s)\<close> for a string: the string is trimmed; a literal of the numeric-string
  grammar gives its value, rounded; anything else gives \<^verbatim>\<open>NaN\<close>.
\<close>

definition StringToNumber :: "jsstring \<Rightarrow> jsnum" where
  "StringToNumber str =
     (case literal_value (trim str) of None \<Rightarrow> NaN | Some n \<Rightarrow> to_double n)"

subsection \<open>Coercions\<close>

text \<open>
  \<^verbatim>\<open>String(v)\<close>. The digits of a number are the engine's business and come as the
  parameter \<open>nts\<close>. An array joins its elements with commas, \<^verbatim>\<open>null\<close> printing as
  nothing. A parsed object prints as \<^verbatim>\<open>[object Object]\<close>, unless it has an own property
  \<^verbatim>\<open>toString\<close>: that shadows the method with something that cannot be called, and the
  conversion throws.
\<close>

fun ToString :: "(jsnum \<Rightarrow> jsstring) \<Rightarrow> jsval \<Rightarrow> exn + jsstring"
  and join_elems :: "(jsnum \<Rightarrow> jsstring) \<Rightarrow> jsval list \<Rightarrow> exn + jsstring" where
  "ToString nts JUndef = Inr (lit ''undefined'')"
| "ToString nts JNull = Inr (lit ''null'')"
| "ToString nts (JBool b) = Inr (if b then lit ''true'' else lit ''false'')"
| "ToString nts (JNum n) = Inr (nts n)"
| "ToString nts (JStr s) = Inr s"
| "ToString nts (JArr xs) = join_elems nts xs"
| "ToString nts (JObj kvs) =
     (if map_of kvs (lit ''toString'') = None then Inr (lit ''[object Object]'')
      else Inl TypeError)"
| "join_elems nts [] = Inr []"
| "join_elems nts [x] = (if nullish x then Inr [] else ToString nts x)"
| "join_elems nts (x # y # ys) =
     (case (if nullish x then Inr [] else ToString nts x) of
        Inl e \<Rightarrow> Inl e
      | Inr a \<Rightarrow>
          (case join_elems nts (y # ys) of
             Inl e \<Rightarrow> Inl e
           | Inr b \<Rightarrow> Inr (a @ [44] @ b)))"

text \<open>\<^verbatim>\<open>Number(v)\<close>; arrays and objects go through their string.\<close>

fun ToNumber :: "(jsnum \<Rightarrow> jsstring) \<Rightarrow> jsval \<Rightarrow> exn + jsnum" where
  "ToNumber nts JUndef = Inr NaN"
| "ToNumber nts JNull = Inr (Fin 0)"
| "ToNumber nts (JBool b) = Inr (Fin (if b then 1 else 0))"
| "ToNumber nts (JNum n) = Inr n"
| "ToNumber nts (JStr s) = Inr (StringToNumber s)"
| "ToNumber nts v = (case ToString nts v of Inl e \<Rightarrow> Inl e | Inr s \<Rightarrow> Inr (StringToNumber s))"

text \<open>\<^verbatim>\<open>n + 1\<close> and \<^verbatim>\<open>n > 1\<close> on numbers.\<close>

fun num_succ :: "jsnum \<Rightarrow> jsnum" where
  "num_succ (Fin r) = round64 (r + 1)"
| "num_succ n = n"

fun num_gt1 :: "jsnum \<Rightarrow> bool" where
  "num_gt1 (Fin r) = (1 < r)"
| "num_gt1 PosInf = True"
| "num_gt1 _ = False"

text \<open>\<^verbatim>\<open>s.includes(p)\<close> on strings.\<close>

fun starts_with :: "jsstring \<Rightarrow> jsstring \<Rightarrow> bool" where
  "starts_with [] s = True"
| "starts_with (p # ps) [] = False"
| "starts_with (p # ps) (c # cs) = (p = c \<and> starts_with ps cs)"

fun str_includes :: "jsstring \<Rightarrow> jsstring \<Rightarrow> bool" where
  "str_includes [] p = (p = [])"
| "str_includes (c # cs) p = (starts_with p (c # cs) \<or> str_includes cs p)"

section \<open>The process and its surroundings\<close>

text \<open>
  What the program takes from outside is gathered in one record: the configured pools
  and locale, the functions of the language and of the framework it calls
  (\<^verbatim>\<open>JSON.stringify\<close>, \<^verbatim>\<open>JSON.parse\<close>, \<^verbatim>\<open>encodeURIComponent\<close>, the digits of a number,
  \<^verbatim>\<open>String(e)\<close> of an exception, the first capture group of each of the three regular
  expressions of \<^verbatim>\<open>extractJSONFromHTML\<close>), and the upstream world: what a fetch of a
  URL answers once its status has been checked and its text read, and how long it takes.
  The type \<open>'b\<close> is that of a response body, whatever \<^verbatim>\<open>JSON.stringify\<close> returns.
\<close>

datatype pattern = VarAssign | JsonField | WindowAssign

record 'b env =
  INVIDIOUS_POOL :: "jsstring list"
  PIPED_POOL :: "jsstring list"
  INVIDIOUS_BASE :: jsstring
  PIPED_BASE :: jsstring
  SUGGEST_HL :: jsstring
  SUGGEST_GL :: jsstring
  stringify :: "jsval \<Rightarrow> 'b"
  JSON_parse :: "jsstring \<Rightarrow> exn + jsval"
  encodeURIComponent :: "jsstring \<Rightarrow> exn + jsstring"
  num_to_string :: "jsnum \<Rightarrow> jsstring"
  describe :: "exn \<Rightarrow> jsstring"
  capture :: "pattern \<Rightarrow> jsstring \<Rightarrow> jsstring option"
  fetch_text :: "jsstring \<Rightarrow> exn + jsstring"
  latency :: "jsstring \<Rightarrow> nat"

text \<open>
  The request as the handlers read it: \<^verbatim>\<open>req.originalUrl\<close>, \<^verbatim>\<open>req.query.q\<close> and
  \<^verbatim>\<open>req.query.page\<close> (\<^verbatim>\<open>undefined\<close> when the parameter is absent; a string, an array or
  an object otherwise, as the query parser built it).
\<close>

record request =
  originalUrl :: jsstring
  query_q :: jsval
  query_page :: jsval

text \<open>
  One store holds both kinds of entry: \<^verbatim>\<open>{ status, body }\<close> under the inbound URL and
  \<^verbatim>\<open>{ value }\<close> (\<^verbatim>\<open>{ json }\<close> in the earlier revisions) under \<^verbatim>\<open>"UPSTREAM:" + url\<close>.
  The store is the \<^verbatim>\<open>lru-cache\<close> package; the model is the map of its live entries, so
  expiry and eviction happen between two requests, not inside one.
\<close>

datatype 'b entry = Rendered nat 'b | Raw jsval

text \<open>
  The state threaded through a handler: the store, the URLs fetched so far in the order
  the fetches were issued, and the writes that the losers of a race will still make
  after the response has gone out.
\<close>

record 'b state =
  cache :: "jsstring \<Rightarrow> 'b entry option"
  issued :: "jsstring list"
  pending :: "(jsstring \<times> 'b entry) list"

text \<open>
  What the client sees: a response, or nothing from the handler, when an exception left
  the \<^verbatim>\<open>async\<close> function outside every \<^verbatim>\<open>try\<close>.
\<close>

datatype 'b outcome = Sent nat 'b | Crashed

definition sendJson :: "'b env \<Rightarrow> jsstring \<Rightarrow> jsval \<Rightarrow> nat \<Rightarrow> 'b state \<Rightarrow> 'b outcome \<times> 'b state" where
  "sendJson env key payload status s =
     (let body = stringify env payload
      in (Sent status body, s\<lparr>cache := (cache s)(key \<mapsto> Rendered status body)\<rparr>))"

text \<open>
  \<^verbatim>\<open>if (hit) return res.status(hit.status).type(...).send(hit.body)\<close>. An entry of the
  other kind has neither field, and sending with no status throws.
\<close>

fun replay :: "'b entry \<Rightarrow> 'b state \<Rightarrow> 'b outcome \<times> 'b state" where
  "replay (Rendered status body) s = (Sent status body, s)"
| "replay (Raw v) s = (Crashed, s)"

fun entry_value :: "'b entry \<Rightarrow> jsval" where
  "entry_value (Raw v) = v"
| "entry_value (Rendered status body) = JUndef"

definition upstream_key :: "jsstring \<Rightarrow> jsstring" where
  "upstream_key u = lit ''UPSTREAM:'' @ u"

definition fetchText :: "'b env \<Rightarrow> jsstring \<Rightarrow> 'b state \<Rightarrow> (exn + jsstring) \<times> 'b state" where
  "fetchText env url s = (fetch_text env url, s\<lparr>issued := issued s @ [url]\<rparr>)"

definition strip_bom :: "jsstring \<Rightarrow> jsstring" where
  "strip_bom txt = (case txt of [] \<Rightarrow> [] | c # cs \<Rightarrow> if c = 65279 then cs else txt)"

text \<open>The answer of \<^verbatim>\<open>fetchJson(url)\<close>, and \<^verbatim>\<open>fetchJson\<close> with its effect.\<close>

definition fetchJson_result :: "'b env \<Rightarrow> jsstring \<Rightarrow> exn + jsval" where
  "fetchJson_result env url =
     (case fetch_text env url of
        Inl e \<Rightarrow> Inl e
      | Inr txt \<Rightarrow>
          (case JSON_parse env txt of
             Inr v \<Rightarrow> Inr v
           | Inl _ \<Rightarrow> JSON_parse env (strip_bom txt)))"

definition fetchJson :: "'b env \<Rightarrow> jsstring \<Rightarrow> 'b state \<Rightarrow> (exn + jsval) \<times> 'b state" where
  "fetchJson env url s = (fetchJson_result env url, s\<lparr>issued := issued s @ [url]\<rparr>)"

definition getCached ::
  "jsstring \<Rightarrow> ('b state \<Rightarrow> (exn + jsval) \<times> 'b state) \<Rightarrow> 'b state \<Rightarrow> (exn + jsval) \<times> 'b state" where
  "getCached key fn s =
     (case cache s key of
        Some hit \<Rightarrow> (Inr (entry_value hit), s)
      | None \<Rightarrow>
          (case fn s of
             (Inl e, s') \<Rightarrow> (Inl e, s')
           | (Inr v, s') \<Rightarrow> (Inr v, s'\<lparr>cache := (cache s')(key \<mapsto> Raw v)\<rparr>)))"

text \<open>The first of the fetches that succeeded to settle; the earlier candidate wins a tie.\<close>

fun first_settled :: "(jsstring \<Rightarrow> nat) \<Rightarrow> (jsstring \<times> jsval) list \<Rightarrow> (jsstring \<times> jsval) option" where
  "first_settled lat [] = None"
| "first_settled lat (x # xs) =
     (case first_settled lat xs of
        None \<Rightarrow> Some x
      | Some y \<Rightarrow> if lat (fst x) \<le> lat (fst y) then Some x else Some y)"

text \<open>
  \<^verbatim>\<open>firstResolved(urls.map(u => getCached("UPSTREAM:" + u, () => fetchJson(u))))\<close>,
  the race of one tier. Building the promises looks every candidate up and issues a
  fetch for each one that is not stored, all before anything settles. A stored
  candidate is settled at once and wins, the first of them in list order;
  otherwise the fastest successful fetch wins and is stored; when every candidate
  fails, \<^verbatim>\<open>Promise.any\<close> rejects. The other successful fetches store their payload later.
\<close>

definition firstResolved :: "'b env \<Rightarrow> jsstring list \<Rightarrow> 'b state \<Rightarrow> (exn + jsval) \<times> 'b state" where
  "firstResolved env urls s =
     (let hits = List.map_filter (\<lambda>u. map_option entry_value (cache s (upstream_key u))) urls;
          misses = filter (\<lambda>u. cache s (upstream_key u) = None) urls;
          landed = List.map_filter
                     (\<lambda>u. case fetchJson_result env u of Inl _ \<Rightarrow> None | Inr v \<Rightarrow> Some (u, v)) misses;
          later = (\<lambda>ws. map (\<lambda>w. (upstream_key (fst w), Raw (snd w))) ws);
          s1 = s\<lparr>issued := issued s @ misses\<rparr>
      in case hits of
           v # _ \<Rightarrow> (Inr v, s1\<lparr>pending := pending s1 @ later landed\<rparr>)
         | [] \<Rightarrow>
             (case first_settled (latency env) landed of
                None \<Rightarrow> (Inl AggregateError, s1)
              | Some w \<Rightarrow>
                  (Inr (snd w),
                   s1\<lparr>cache := (cache s1)(upstream_key (fst w) \<mapsto> Raw (snd w)),
                      pending := pending s1 @ later (remove1 w landed)\<rparr>)))"

section \<open>Normalisers\<close>

definition item :: "string \<Rightarrow> jsval \<Rightarrow> jsval" where
  "item kind d = JObj [(lit ''kind'', JStr (lit kind)), (lit ''data'', d)]"

text \<open>\<^verbatim>\<open>xs.map((t) => t.url).slice(0, 3)\<close>; only an array has \<^verbatim>\<open>map\<close>.\<close>

definition thumb_urls :: "jsval \<Rightarrow> exn + jsval" where
  "thumb_urls x =
     (case x of
        JArr ts \<Rightarrow>
          (case map_try (\<lambda>t. getprop t (lit ''url'')) ts of
             Inl e \<Rightarrow> Inl e
           | Inr us \<Rightarrow> Inr (JArr (take 3 us)))
      | _ \<Rightarrow> Inl TypeError)"

definition normalizeVideo :: "'b env \<Rightarrow> jsval \<Rightarrow> exn + jsval" where
  "normalizeVideo env v =
     (if nullish v then Inl TypeError
      else case ToNumber (num_to_string env)
                  (nc (nc (field v (lit ''viewCount'')) (field v (lit ''views''))) (JNum (Fin 0))) of
             Inl e \<Rightarrow> Inl e
           | Inr n \<Rightarrow>
               (case thumb_urls (nc (nc (field v (lit ''videoThumbnails''))
                                        (field v (lit ''thumbnails''))) (JArr [])) of
                  Inl e \<Rightarrow> Inl e
                | Inr ths \<Rightarrow>
                    Inr (JObj
                      [(lit ''id'', nc (nc (field v (lit ''videoId'')) (field v (lit ''id''))) JNull),
                       (lit ''title'', nc (field v (lit ''title'')) (JStr [])),
                       (lit ''channelName'',
                          nc (nc (nc (field v (lit ''author'')) (field v (lit ''uploader'')))
                                 (field v (lit ''channelName''))) JNull),
                       (lit ''channelId'',
                          nc (nc (nc (field v (lit ''authorId'')) (field v (lit ''uploaderId'')))
                                 (field v (lit ''channelId''))) JNull),
                       (lit ''durationSeconds'',
                          nc (nc (field v (lit ''lengthSeconds'')) (field v (lit ''duration''))) JNull),
                       (lit ''viewCount'', JNum n),
                       (lit ''publishedText'',
                          nc (nc (field v (lit ''publishedText'')) (field v (lit ''uploadedDate''))) JNull),
                       (lit ''thumbnails'', ths)])))"

definition normalizeChannel :: "jsval \<Rightarrow> exn + jsval" where
  "normalizeChannel c =
     (if nullish c then Inl TypeError
      else Inr (JObj
        [(lit ''id'',
            nc (nc (nc (field c (lit ''authorId'')) (field c (lit ''id''))) (field c (lit ''ucid''))) JNull),
         (lit ''title'',
            nc (nc (nc (field c (lit ''author'')) (field c (lit ''name''))) (field c (lit ''title'')))
               (JStr [])),
         (lit ''avatar'',
            nc (opt (elem (nc (nc (field c (lit ''authorThumbnails'')) (field c (lit ''thumbnails'')))
                              (JArr [])) 0) (lit ''url'')) JNull)]))"

section \<open>The HTML scraper\<close>

fun try_patterns :: "'b env \<Rightarrow> pattern list \<Rightarrow> jsstring \<Rightarrow> jsval" where
  "try_patterns env [] html = JNull"
| "try_patterns env (re # res) html =
     (case capture env re html of
        None \<Rightarrow> try_patterns env res html
      | Some m1 \<Rightarrow>
          (if m1 = [] then try_patterns env res html
           else case JSON_parse env m1 of
                  Inr v \<Rightarrow> v
                | Inl _ \<Rightarrow> try_patterns env res html))"

definition extractJSONFromHTML :: "'b env \<Rightarrow> jsstring \<Rightarrow> jsval" where
  "extractJSONFromHTML env html = try_patterns env [VarAssign, JsonField, WindowAssign] html"

text \<open>The walk is pre-order: a node's own renderer first, then every child in turn.\<close>

fun collectRenderers :: "jsstring \<Rightarrow> jsval \<Rightarrow> jsval list" where
  "collectRenderers key (JArr xs) = concat (map (collectRenderers key) xs)"
| "collectRenderers key (JObj kvs) =
     (if truthy (field (JObj kvs) key) then [field (JObj kvs) key] else [])
     @ concat (map (\<lambda>kv. collectRenderers key (snd kv)) kvs)"
| "collectRenderers key v = []"

text \<open>\<^verbatim>\<open>x?.runs?.[0]?.text\<close>.\<close>

definition first_run :: "jsval \<Rightarrow> jsval" where
  "first_run x = opt_elem (opt x (lit ''runs'')) 0"

definition browse_id :: "jsval \<Rightarrow> jsval" where
  "browse_id x = opt (opt (opt x (lit ''navigationEndpoint'')) (lit ''browseEndpoint'')) (lit ''browseId'')"

definition scrape_video :: "jsval \<Rightarrow> exn + jsval" where
  "scrape_video v =
     (if nullish v then Inl TypeError
      else case thumb_urls (lor (opt (field v (lit ''thumbnail'')) (lit ''thumbnails'')) (JArr [])) of
             Inl e \<Rightarrow> Inl e
           | Inr ths \<Rightarrow>
               Inr (item ''video'' (JObj
                 [(lit ''id'', field v (lit ''videoId'')),
                  (lit ''title'', lor (opt (first_run (field v (lit ''title''))) (lit ''text'')) (JStr [])),
                  (lit ''channelName'',
                     lor (lor (opt (first_run (field v (lit ''ownerText''))) (lit ''text''))
                              (opt (first_run (field v (lit ''longBylineText''))) (lit ''text''))) JNull),
                  (lit ''channelId'',
                     lor (lor (browse_id (first_run (field v (lit ''ownerText''))))
                              (browse_id (first_run (field v (lit ''longBylineText''))))) JNull),
                  (lit ''durationSeconds'', JNull),
                  (lit ''viewCount'', JNull),
                  (lit ''publishedText'',
                     lor (opt (field v (lit ''publishedTimeText'')) (lit ''simpleText'')) JNull),
                  (lit ''thumbnails'', ths)])))"

definition scrapeVideosFromInitialData :: "jsval \<Rightarrow> exn + jsval list" where
  "scrapeVideosFromInitialData d = map_try scrape_video (collectRenderers (lit ''videoRenderer'') d)"

definition scrape_channel :: "jsval \<Rightarrow> exn + jsval" where
  "scrape_channel c =
     (if nullish c then Inl TypeError
      else Inr (item ''channel'' (JObj
        [(lit ''id'', lor (lor (field c (lit ''channelId'')) (browse_id c)) JNull),
         (lit ''title'',
            lor (lor (opt (field c (lit ''title'')) (lit ''simpleText''))
                     (opt (first_run (field c (lit ''title''))) (lit ''text''))) (JStr [])),
         (lit ''avatar'',
            lor (opt (elem (lor (opt (field c (lit ''thumbnail'')) (lit ''thumbnails'')) (JArr [])) 0)
                     (lit ''url'')) JNull)])))"

definition scrapeChannelsFromInitialData :: "jsval \<Rightarrow> exn + jsval list" where
  "scrapeChannelsFromInitialData d = map_try scrape_channel (collectRenderers (lit ''channelRenderer'') d)"

definition parse_failed :: jsval where
  "parse_failed =
     JObj [(lit ''items'', JArr []), (lit ''nextPage'', JNum (Fin 2)),
           (lit ''error'', JStr (lit ''yt_html_parse_failed''))]"

definition ytHtmlFallbackSearch :: "'b env \<Rightarrow> jsstring \<Rightarrow> 'b state \<Rightarrow> (exn + jsval) \<times> 'b state" where
  "ytHtmlFallbackSearch env q s =
     (case encodeURIComponent env q of
        Inl e \<Rightarrow> (Inl e, s)
      | Inr eq \<Rightarrow>
          (case fetchText env (lit ''https://www.youtube.com/results?search_query='' @ eq
                               @ lit ''&hl='' @ SUGGEST_HL env @ lit ''&gl='' @ SUGGEST_GL env) s of
             (Inl e, s1) \<Rightarrow> (Inl e, s1)
           | (Inr html, s1) \<Rightarrow>
               (let d = extractJSONFromHTML env html
                in if \<not> truthy d then (Inr parse_failed, s1)
                   else case scrapeVideosFromInitialData d of
                          Inl e \<Rightarrow> (Inl e, s1)
                        | Inr vs \<Rightarrow>
                            (case scrapeChannelsFromInitialData d of
                               Inl e \<Rightarrow> (Inl e, s1)
                             | Inr cs \<Rightarrow>
                                 (Inr (JObj [(lit ''items'', JArr (vs @ cs)),
                                             (lit ''nextPage'', JNum (Fin 2))]), s1)))))"

section \<open>The handlers of \<^verbatim>\<open>src/server.js\<close>\<close>

text \<open>\<^verbatim>\<open>String(req.query.q || "").trim()\<close> and \<^verbatim>\<open>Number(req.query.page || 1)\<close>.\<close>

definition query_text :: "'b env \<Rightarrow> request \<Rightarrow> exn + jsstring" where
  "query_text env req =
     (case ToString (num_to_string env) (lor (query_q req) (JStr [])) of
        Inl e \<Rightarrow> Inl e
      | Inr t \<Rightarrow> Inr (trim t))"

definition page_number :: "'b env \<Rightarrow> request \<Rightarrow> exn + jsnum" where
  "page_number env req = ToNumber (num_to_string env) (lor (query_page req) (JNum (Fin 1)))"

text \<open>\<^verbatim>\<open>pool.map(base => `${base}<path>${encodeURIComponent(x)}<rest>`)\<close>.\<close>

definition pool_urls ::
  "'b env \<Rightarrow> jsstring list \<Rightarrow> jsstring \<Rightarrow> jsstring \<Rightarrow> jsstring \<Rightarrow> exn + jsstring list" where
  "pool_urls env pool path x rest =
     map_try (\<lambda>base. case encodeURIComponent env x of
                        Inl e \<Rightarrow> Inl e
                      | Inr ex \<Rightarrow> Inr (base @ path @ ex @ rest)) pool"

subsection \<open>\<^verbatim>\<open>/suggest\<close>\<close>

definition suggest_list :: "jsval \<Rightarrow> jsval" where
  "suggest_list raw = (if is_array raw then raw else nc (opt raw (lit ''suggestions'')) (JArr []))"

definition google_list :: "jsval \<Rightarrow> jsval" where
  "google_list raw = (if is_array raw \<and> is_array (elem raw 1) then elem raw 1 else JArr [])"

text \<open>\<^verbatim>\<open>list.map(String).slice(0, 10)\<close>.\<close>

definition strings10 :: "'b env \<Rightarrow> jsval \<Rightarrow> exn + jsval" where
  "strings10 env l =
     (case l of
        JArr xs \<Rightarrow>
          (case map_try (ToString (num_to_string env)) xs of
             Inl e \<Rightarrow> Inl e
           | Inr ss \<Rightarrow> Inr (JArr (map JStr (take 10 ss))))
      | _ \<Rightarrow> Inl TypeError)"

definition google_url :: "'b env \<Rightarrow> jsstring \<Rightarrow> exn + jsstring" where
  "google_url env q =
     (case encodeURIComponent env (SUGGEST_HL env) of
        Inl e \<Rightarrow> Inl e
      | Inr hl \<Rightarrow>
          (case encodeURIComponent env (SUGGEST_GL env) of
             Inl e \<Rightarrow> Inl e
           | Inr gl \<Rightarrow>
               (case encodeURIComponent env q of
                  Inl e \<Rightarrow> Inl e
                | Inr eq \<Rightarrow>
                    Inr (lit ''https://suggestqueries.google.com/complete/search?client=firefox&ds=yt&hl=''
                         @ hl @ lit ''&gl='' @ gl @ lit ''&q='' @ eq))))"

text \<open>The last tier of \<^verbatim>\<open>/suggest\<close>: one cached fetch, not a race.\<close>

definition suggest_google :: "'b env \<Rightarrow> jsstring \<Rightarrow> 'b state \<Rightarrow> (exn + jsval) \<times> 'b state" where
  "suggest_google env q s =
     (case google_url env q of
        Inl e \<Rightarrow> (Inl e, s)
      | Inr gUrl \<Rightarrow>
          (case getCached (upstream_key gUrl) (fetchJson env gUrl) s of
             (Inl e, s1) \<Rightarrow> (Inl e, s1)
           | (Inr raw, s1) \<Rightarrow> (strings10 env (google_list raw), s1)))"

text \<open>The candidate lists, built before the first race starts.\<close>

definition suggest_inv_urls :: "'b env \<Rightarrow> jsstring \<Rightarrow> exn + jsstring list" where
  "suggest_inv_urls env q =
     pool_urls env (INVIDIOUS_POOL env) (lit ''/api/v1/search/suggestions?q='') q []"

definition suggest_pip_urls :: "'b env \<Rightarrow> jsstring \<Rightarrow> exn + jsstring list" where
  "suggest_pip_urls env q =
     (case pool_urls env (PIPED_POOL env) (lit ''/suggestions?query='') q [] of
        Inl e \<Rightarrow> Inl e
      | Inr pipUrls1 \<Rightarrow>
          (case pool_urls env (PIPED_POOL env) (lit ''/api/v1/suggestions?q='') q [] of
             Inl e \<Rightarrow> Inl e
           | Inr pipUrls2 \<Rightarrow> Inr (pipUrls1 @ pipUrls2)))"

text \<open>
  The body of the outer \<^verbatim>\<open>try\<close>, up to the list that is sent. A tier is left for the
  next one only when its race throws; the list a tier produced goes to
  \<^verbatim>\<open>list.map(String)\<close> outside the inner \<^verbatim>\<open>try\<close>, whatever its length.
\<close>

definition suggest_try :: "'b env \<Rightarrow> jsstring \<Rightarrow> 'b state \<Rightarrow> (exn + jsval) \<times> 'b state" where
  "suggest_try env q s =
     (case suggest_inv_urls env q of
        Inl e \<Rightarrow> (Inl e, s)
      | Inr invUrls \<Rightarrow>
     (case suggest_pip_urls env q of
        Inl e \<Rightarrow> (Inl e, s)
      | Inr pipUrls \<Rightarrow>
     (case firstResolved env invUrls s of
        (Inr raw, s1) \<Rightarrow> (strings10 env (suggest_list raw), s1)
      | (Inl _, s1) \<Rightarrow>
          (case firstResolved env pipUrls s1 of
             (Inr raw, s2) \<Rightarrow> (strings10 env (suggest_list raw), s2)
           | (Inl _, s2) \<Rightarrow> suggest_google env q s2))))"

definition suggestions :: "jsval \<Rightarrow> jsval" where
  "suggestions l = JObj [(lit ''suggestions'', l)]"

definition no_suggestions :: "jsstring \<Rightarrow> jsval" where
  "no_suggestions marker = JObj [(lit ''suggestions'', JArr []), (lit ''error'', JStr marker)]"

definition handle_suggest :: "'b env \<Rightarrow> request \<Rightarrow> 'b state \<Rightarrow> 'b outcome \<times> 'b state" where
  "handle_suggest env req s =
     (case query_text env req of
        Inl e \<Rightarrow> (Crashed, s)
      | Inr q \<Rightarrow>
          (case cache s (originalUrl req) of
             Some hit \<Rightarrow> replay hit s
           | None \<Rightarrow>
               (if q = [] then sendJson env (originalUrl req) (suggestions (JArr [])) 200 s
                else case suggest_try env q s of
                       (Inr l, s1) \<Rightarrow> sendJson env (originalUrl req) (suggestions l) 200 s1
                     | (Inl _, s1) \<Rightarrow>
                         sendJson env (originalUrl req)
                           (no_suggestions (lit ''upstream_unavailable'')) 200 s1)))"

subsection \<open>\<^verbatim>\<open>/search\<close> and \<^verbatim>\<open>/channels\<close>\<close>

definition items_list :: "jsval \<Rightarrow> jsval" where
  "items_list raw = (if is_array raw then raw else nc (opt raw (lit ''items'')) (JArr []))"

definition with_kind :: "string \<Rightarrow> exn + jsval \<Rightarrow> exn + jsval" where
  "with_kind kind r = (case r of Inl e \<Rightarrow> Inl e | Inr d \<Rightarrow> Inr (item kind d))"

text \<open>The two mapping functions of \<^verbatim>\<open>/search\<close>; \<^verbatim>\<open>null\<close> marks an entry to drop.\<close>

definition inv_search_item :: "'b env \<Rightarrow> jsval \<Rightarrow> exn + jsval" where
  "inv_search_item env it =
     (if nullish it then Inl TypeError
      else if field it (lit ''type'') = JStr (lit ''video'') \<or> truthy (field it (lit ''videoId''))
        then with_kind ''video'' (normalizeVideo env it)
      else if field it (lit ''type'') = JStr (lit ''channel'') \<or> truthy (field it (lit ''authorId''))
              \<or> truthy (field it (lit ''channelId''))
        then with_kind ''channel'' (normalizeChannel it)
      else if field it (lit ''type'') = JStr (lit ''playlist'') \<or> truthy (field it (lit ''playlistId''))
        then Inr (item ''playlist''
               (JObj [(lit ''id'', field it (lit ''playlistId'')),
                      (lit ''title'', nc (field it (lit ''title'')) (JStr []))]))
      else Inr JNull)"

definition pip_search_item :: "'b env \<Rightarrow> jsval \<Rightarrow> exn + jsval" where
  "pip_search_item env it =
     (if nullish it then Inl TypeError
      else if field it (lit ''type'') = JStr (lit ''video'')
        then with_kind ''video'' (normalizeVideo env it)
      else if field it (lit ''type'') = JStr (lit ''channel'')
        then with_kind ''channel'' (normalizeChannel it)
      else if field it (lit ''type'') = JStr (lit ''playlist'')
        then Inr (item ''playlist''
               (JObj [(lit ''id'', nc (field it (lit ''playlistId'')) (field it (lit ''id''))),
                      (lit ''title'', nc (field it (lit ''title'')) (JStr []))]))
      else Inr JNull)"

text \<open>\<^verbatim>\<open>xs.map(f).filter(Boolean)\<close>.\<close>

definition map_items :: "(jsval \<Rightarrow> exn + jsval) \<Rightarrow> jsval \<Rightarrow> exn + jsval" where
  "map_items f l =
     (case l of
        JArr xs \<Rightarrow>
          (case map_try f xs of
             Inl e \<Rightarrow> Inl e
           | Inr ys \<Rightarrow> Inr (JArr (filter truthy ys)))
      | _ \<Rightarrow> Inl TypeError)"

fun filter_try :: "('a \<Rightarrow> exn + bool) \<Rightarrow> 'a list \<Rightarrow> exn + 'a list" where
  "filter_try p [] = Inr []"
| "filter_try p (x # xs) =
     (case p x of
        Inl e \<Rightarrow> Inl e
      | Inr b \<Rightarrow>
          (case filter_try p xs of
             Inl e \<Rightarrow> Inl e
           | Inr ys \<Rightarrow> Inr (if b then x # ys else ys)))"

text \<open>
  \<^verbatim>\<open>(x.type ?? "").includes("channel")\<close>: a substring test on a string, a membership
  test on an array, and a \<^verbatim>\<open>TypeError\<close> on anything else, which has no such method.
\<close>

definition includes_channel :: "jsval \<Rightarrow> exn + bool" where
  "includes_channel t =
     (case nc t (JStr []) of
        JStr c \<Rightarrow> Inr (str_includes c (lit ''channel''))
      | JArr xs \<Rightarrow> Inr (List.member xs (JStr (lit ''channel'')))
      | _ \<Rightarrow> Inl TypeError)"

definition inv_is_channel :: "jsval \<Rightarrow> exn + bool" where
  "inv_is_channel x =
     (if nullish x then Inl TypeError
      else case includes_channel (field x (lit ''type'')) of
             Inl e \<Rightarrow> Inl e
           | Inr b \<Rightarrow> Inr (b \<or> truthy (field x (lit ''authorId''))
                              \<or> truthy (field x (lit ''channelId''))))"

definition pip_is_channel :: "jsval \<Rightarrow> exn + bool" where
  "pip_is_channel x =
     (if nullish x then Inl TypeError
      else Inr (field x (lit ''type'') = JStr (lit ''channel'')
                \<or> truthy (field x (lit ''authorId'')) \<or> truthy (field x (lit ''channelId''))))"

text \<open>\<^verbatim>\<open>list.filter(p).map((x) => ({ kind: "channel", data: normalizeChannel(x) }))\<close>.\<close>

definition channel_items :: "(jsval \<Rightarrow> exn + bool) \<Rightarrow> jsval \<Rightarrow> exn + jsval" where
  "channel_items p l =
     (case l of
        JArr xs \<Rightarrow>
          (case filter_try p xs of
             Inl e \<Rightarrow> Inl e
           | Inr ys \<Rightarrow>
               (case map_try (\<lambda>x. with_kind ''channel'' (normalizeChannel x)) ys of
                  Inl e \<Rightarrow> Inl e
                | Inr zs \<Rightarrow> Inr (JArr zs)))
      | _ \<Rightarrow> Inl TypeError)"

text \<open>
  One JSON tier: the race, then the tier's mapping of the winner's payload, all inside
  one \<^verbatim>\<open>try\<close>. Whatever the mapping returns is the tier's result, an empty list too.
\<close>

definition json_tier ::
  "'b env \<Rightarrow> jsstring list \<Rightarrow> (jsval \<Rightarrow> exn + jsval) \<Rightarrow> 'b state \<Rightarrow> (exn + jsval) \<times> 'b state" where
  "json_tier env urls f s =
     (case firstResolved env urls s of
        (Inl e, s1) \<Rightarrow> (Inl e, s1)
      | (Inr raw, s1) \<Rightarrow> (f (items_list raw), s1))"

definition page_of :: "jsval \<Rightarrow> jsnum \<Rightarrow> jsval" where
  "page_of items page = JObj [(lit ''items'', items), (lit ''nextPage'', JNum (num_succ page))]"

definition unavailable :: "jsval \<Rightarrow> jsnum \<Rightarrow> jsval" where
  "unavailable items page =
     JObj [(lit ''items'', items), (lit ''nextPage'', JNum (num_succ page)),
           (lit ''error'', JStr (lit ''upstream_unavailable''))]"

definition empty_page :: jsval where
  "empty_page = JObj [(lit ''items'', JArr []), (lit ''nextPage'', JNull)]"

definition search_inv_urls :: "'b env \<Rightarrow> jsstring \<Rightarrow> jsnum \<Rightarrow> exn + jsstring list" where
  "search_inv_urls env q page =
     pool_urls env (INVIDIOUS_POOL env) (lit ''/api/v1/search?q='') q
       (lit ''&page='' @ num_to_string env page)"

definition search_pip_urls :: "'b env \<Rightarrow> jsstring \<Rightarrow> jsnum \<Rightarrow> exn + jsstring list" where
  "search_pip_urls env q page =
     (case pool_urls env (PIPED_POOL env) (lit ''/search?query='') q
             (lit ''&page='' @ num_to_string env page) of
        Inl e \<Rightarrow> Inl e
      | Inr pipUrls1 \<Rightarrow>
          (case pool_urls env (PIPED_POOL env) (lit ''/api/v1/search?q='') q
                  (lit ''&page='' @ num_to_string env page) of
             Inl e \<Rightarrow> Inl e
           | Inr pipUrls2 \<Rightarrow> Inr (pipUrls1 @ pipUrls2)))"

text \<open>
  The end of the outer \<^verbatim>\<open>try\<close> of \<^verbatim>\<open>/search\<close> and \<^verbatim>\<open>/channels\<close>: the payload is sent,
  and an exception that came this far is answered by the outer \<^verbatim>\<open>catch\<close>.
\<close>

definition finish ::
  "'b env \<Rightarrow> jsstring \<Rightarrow> jsnum \<Rightarrow> (exn + jsval) \<times> 'b state \<Rightarrow> 'b outcome \<times> 'b state" where
  "finish env key page r =
     (case r of
        (Inr payload, s) \<Rightarrow> sendJson env key payload 200 s
      | (Inl e, s) \<Rightarrow> sendJson env key (unavailable (JArr []) page) 200 s)"

text \<open>The innermost \<^verbatim>\<open>catch\<close> of \<^verbatim>\<open>/search\<close>: the HTML scrape, for the first page only.\<close>

definition search_last :: "'b env \<Rightarrow> jsstring \<Rightarrow> jsnum \<Rightarrow> 'b state \<Rightarrow> (exn + jsval) \<times> 'b state" where
  "search_last env q page s =
     (if num_gt1 page then (Inr (unavailable (JArr []) page), s)
      else ytHtmlFallbackSearch env q s)"

definition search_try :: "'b env \<Rightarrow> jsstring \<Rightarrow> jsnum \<Rightarrow> 'b state \<Rightarrow> (exn + jsval) \<times> 'b state" where
  "search_try env q page s =
     (case search_inv_urls env q page of
        Inl e \<Rightarrow> (Inl e, s)
      | Inr invUrls \<Rightarrow>
     (case search_pip_urls env q page of
        Inl e \<Rightarrow> (Inl e, s)
      | Inr pipUrls \<Rightarrow>
     (case json_tier env invUrls (map_items (inv_search_item env)) s of
        (Inr items, s1) \<Rightarrow> (Inr (page_of items page), s1)
      | (Inl _, s1) \<Rightarrow>
          (case json_tier env pipUrls (map_items (pip_search_item env)) s1 of
             (Inr items, s2) \<Rightarrow> (Inr (page_of items page), s2)
           | (Inl _, s2) \<Rightarrow> search_last env q page s2))))"

definition handle_search :: "'b env \<Rightarrow> request \<Rightarrow> 'b state \<Rightarrow> 'b outcome \<times> 'b state" where
  "handle_search env req s =
     (case query_text env req of
        Inl e \<Rightarrow> (Crashed, s)
      | Inr q \<Rightarrow>
     (case page_number env req of
        Inl e \<Rightarrow> (Crashed, s)
      | Inr page \<Rightarrow>
          (case cache s (originalUrl req) of
             Some hit \<Rightarrow> replay hit s
           | None \<Rightarrow>
               (if q = [] then sendJson env (originalUrl req) empty_page 200 s
                else finish env (originalUrl req) page (search_try env q page s)))))"

text \<open>\<^verbatim>\<open>fb.items.filter(it => it.kind === "channel")\<close>.\<close>

definition channels_of :: "jsval \<Rightarrow> exn + jsval" where
  "channels_of fb =
     (case field fb (lit ''items'') of
        JArr its \<Rightarrow>
          (case filter_try (\<lambda>it. case getprop it (lit ''kind'') of
                                   Inl e \<Rightarrow> Inl e
                                 | Inr k \<Rightarrow> Inr (k = JStr (lit ''channel''))) its of
             Inl e \<Rightarrow> Inl e
           | Inr cs \<Rightarrow> Inr (JArr cs))
      | _ \<Rightarrow> Inl TypeError)"

definition channels_inv_urls :: "'b env \<Rightarrow> jsstring \<Rightarrow> jsnum \<Rightarrow> exn + jsstring list" where
  "channels_inv_urls env q page =
     pool_urls env (INVIDIOUS_POOL env) (lit ''/api/v1/search?q='') (lit ''type:channel '' @ q)
       (lit ''&page='' @ num_to_string env page)"

definition channels_pip_urls :: "'b env \<Rightarrow> jsstring \<Rightarrow> jsnum \<Rightarrow> exn + jsstring list" where
  "channels_pip_urls env q page =
     (case pool_urls env (PIPED_POOL env) (lit ''/search?query='') q
             (lit ''&filter=channels&page='' @ num_to_string env page) of
        Inl e \<Rightarrow> Inl e
      | Inr pipUrls1 \<Rightarrow>
          (case pool_urls env (PIPED_POOL env) (lit ''/api/v1/search?q='') q
                  (lit ''&filter=channels&page='' @ num_to_string env page) of
             Inl e \<Rightarrow> Inl e
           | Inr pipUrls2 \<Rightarrow> Inr (pipUrls1 @ pipUrls2)))"

text \<open>The innermost \<^verbatim>\<open>catch\<close> of \<^verbatim>\<open>/channels\<close>: the channels of the HTML scrape.\<close>

definition channels_last :: "'b env \<Rightarrow> jsstring \<Rightarrow> jsnum \<Rightarrow> 'b state \<Rightarrow> (exn + jsval) \<times> 'b state" where
  "channels_last env q page s =
     (case ytHtmlFallbackSearch env q s of
        (Inl e, s1) \<Rightarrow> (Inl e, s1)
      | (Inr fb, s1) \<Rightarrow>
          (case channels_of fb of
             Inl e \<Rightarrow> (Inl e, s1)
           | Inr items \<Rightarrow> (Inr (unavailable items page), s1)))"

definition channels_try :: "'b env \<Rightarrow> jsstring \<Rightarrow> jsnum \<Rightarrow> 'b state \<Rightarrow> (exn + jsval) \<times> 'b state" where
  "channels_try env q page s =
     (case channels_inv_urls env q page of
        Inl e \<Rightarrow> (Inl e, s)
      | Inr invUrls \<Rightarrow>
     (case channels_pip_urls env q page of
        Inl e \<Rightarrow> (Inl e, s)
      | Inr pipUrls \<Rightarrow>
     (case json_tier env invUrls (channel_items inv_is_channel) s of
        (Inr items, s1) \<Rightarrow> (Inr (page_of items page), s1)
      | (Inl _, s1) \<Rightarrow>
          (case json_tier env pipUrls (channel_items pip_is_channel) s1 of
             (Inr items, s2) \<Rightarrow> (Inr (page_of items page), s2)
           | (Inl _, s2) \<Rightarrow> channels_last env q page s2))))"

definition handle_channels :: "'b env \<Rightarrow> request \<Rightarrow> 'b state \<Rightarrow> 'b outcome \<times> 'b state" where
  "handle_channels env req s =
     (case query_text env req of
        Inl e \<Rightarrow> (Crashed, s)
      | Inr q \<Rightarrow>
     (case page_number env req of
        Inl e \<Rightarrow> (Crashed, s)
      | Inr page \<Rightarrow>
          (case cache s (originalUrl req) of
             Some hit \<Rightarrow> replay hit s
           | None \<Rightarrow>
               (if q = [] then sendJson env (originalUrl req) empty_page 200 s
                else finish env (originalUrl req) page (channels_try env q page s)))))"

section \<open>The earlier revisions of \<^verbatim>\<open>/suggest\<close>\<close>

text \<open>
  Both earlier revisions read an upstream with \<^verbatim>\<open>r.json()\<close> and keep the payload
  under \<^verbatim>\<open>"UPSTREAM:" + url\<close>.
\<close>

definition fetch_json :: "'b env \<Rightarrow> jsstring \<Rightarrow> 'b state \<Rightarrow> (exn + jsval) \<times> 'b state" where
  "fetch_json env url s =
     ((case fetch_text env url of Inl e \<Rightarrow> Inl e | Inr txt \<Rightarrow> JSON_parse env txt),
      s\<lparr>issued := issued s @ [url]\<rparr>)"

definition getCachedJson :: "'b env \<Rightarrow> jsstring \<Rightarrow> 'b state \<Rightarrow> (exn + jsval) \<times> 'b state" where
  "getCachedJson env url s = getCached (upstream_key url) (fetch_json env url) s"

subsection \<open>\<^verbatim>\<open>src/unnamed/part_000\<close>: sequential pools\<close>

text \<open>
  \<^verbatim>\<open>firstOk\<close> tries the candidates in order and returns the first answer; when all
  fail it throws the last error, or \<^verbatim>\<open>no upstream\<close> for an empty pool.
\<close>

fun firstOk_from :: "'b env \<Rightarrow> exn option \<Rightarrow> jsstring list \<Rightarrow> 'b state \<Rightarrow> (exn + jsval) \<times> 'b state" where
  "firstOk_from env lastErr [] s =
     (Inl (case lastErr of None \<Rightarrow> NoUpstream | Some e \<Rightarrow> e), s)"
| "firstOk_from env lastErr (u # us) s =
     (case getCachedJson env u s of
        (Inr v, s1) \<Rightarrow> (Inr v, s1)
      | (Inl e, s1) \<Rightarrow> firstOk_from env (Some e) us s1)"

definition firstOk :: "'b env \<Rightarrow> jsstring list \<Rightarrow> 'b state \<Rightarrow> (exn + jsval) \<times> 'b state" where
  "firstOk env urls s = firstOk_from env None urls s"

text \<open>
  What a tier does with the payload it got: a non-empty array is sent (\<open>Some\<close>); an
  empty list, a value that is not an array, and an exception of \<^verbatim>\<open>list.map(String)\<close>
  all leave the tier without a response (\<open>None\<close>).
\<close>

definition pool_answer :: "'b env \<Rightarrow> jsval \<Rightarrow> jsval option" where
  "pool_answer env raw =
     (case suggest_list raw of
        JArr xs \<Rightarrow>
          (if xs \<noteq> [] then (case strings10 env (JArr xs) of Inl e \<Rightarrow> None | Inr l \<Rightarrow> Some l)
           else None)
      | _ \<Rightarrow> None)"

definition suggest_pool_p0 :: "'b env \<Rightarrow> exn + jsstring list \<Rightarrow> 'b state \<Rightarrow> jsval option \<times> 'b state" where
  "suggest_pool_p0 env built s =
     (case built of
        Inl e \<Rightarrow> (None, s)
      | Inr urls \<Rightarrow>
          (case firstOk env urls s of
             (Inl e, s1) \<Rightarrow> (None, s1)
           | (Inr raw, s1) \<Rightarrow> (pool_answer env raw, s1)))"

definition suggest_pip_urls_p0 :: "'b env \<Rightarrow> jsstring \<Rightarrow> exn + jsstring list" where
  "suggest_pip_urls_p0 env q = pool_urls env (PIPED_POOL env) (lit ''/suggestions?query='') q []"

definition suggest_google_p0 :: "'b env \<Rightarrow> jsstring \<Rightarrow> 'b state \<Rightarrow> jsval option \<times> 'b state" where
  "suggest_google_p0 env q s =
     (case google_url env q of
        Inl e \<Rightarrow> (None, s)
      | Inr gUrl \<Rightarrow>
          (case getCachedJson env gUrl s of
             (Inl e, s1) \<Rightarrow> (None, s1)
           | (Inr raw, s1) \<Rightarrow>
               ((case strings10 env (google_list raw) of Inl e \<Rightarrow> None | Inr l \<Rightarrow> Some l), s1)))"

text \<open>The handler from the Piped tier on, and from the Google tier on.\<close>

definition after_piped_p0 :: "'b env \<Rightarrow> jsstring \<Rightarrow> jsstring \<Rightarrow> 'b state \<Rightarrow> 'b outcome \<times> 'b state" where
  "after_piped_p0 env key q s =
     (case suggest_google_p0 env q s of
        (Some l, s1) \<Rightarrow> sendJson env key (suggestions l) 200 s1
      | (None, s1) \<Rightarrow> sendJson env key (no_suggestions (lit ''upstream_unavailable'')) 200 s1)"

definition after_invidious_p0 :: "'b env \<Rightarrow> jsstring \<Rightarrow> jsstring \<Rightarrow> 'b state \<Rightarrow> 'b outcome \<times> 'b state" where
  "after_invidious_p0 env key q s =
     (case suggest_pool_p0 env (suggest_pip_urls_p0 env q) s of
        (Some l, s1) \<Rightarrow> sendJson env key (suggestions l) 200 s1
      | (None, s1) \<Rightarrow> after_piped_p0 env key q s1)"

definition handle_suggest_p0 :: "'b env \<Rightarrow> request \<Rightarrow> 'b state \<Rightarrow> 'b outcome \<times> 'b state" where
  "handle_suggest_p0 env req s =
     (case query_text env req of
        Inl e \<Rightarrow> (Crashed, s)
      | Inr q \<Rightarrow>
          (case cache s (originalUrl req) of
             Some hit \<Rightarrow> replay hit s
           | None \<Rightarrow>
               (if q = [] then sendJson env (originalUrl req) (suggestions (JArr [])) 200 s
                else case suggest_pool_p0 env (suggest_inv_urls env q) s of
                       (Some l, s1) \<Rightarrow> sendJson env (originalUrl req) (suggestions l) 200 s1
                     | (None, s1) \<Rightarrow> after_invidious_p0 env (originalUrl req) q s1)))"

subsection \<open>\<^verbatim>\<open>src/unnamed/part_001\<close>: one base per family\<close>

text \<open>\<^verbatim>\<open>list.map(String)\<close>, with no cut.\<close>

definition strings_all :: "'b env \<Rightarrow> jsval \<Rightarrow> exn + jsval" where
  "strings_all env l =
     (case l of
        JArr xs \<Rightarrow>
          (case map_try (ToString (num_to_string env)) xs of
             Inl e \<Rightarrow> Inl e
           | Inr ss \<Rightarrow> Inr (JArr (map JStr ss)))
      | _ \<Rightarrow> Inl TypeError)"

definition suggest_invidious_p1 :: "'b env \<Rightarrow> jsstring \<Rightarrow> 'b state \<Rightarrow> (exn + jsval) \<times> 'b state" where
  "suggest_invidious_p1 env q s =
     (case encodeURIComponent env q of
        Inl e \<Rightarrow> (Inl e, s)
      | Inr eq \<Rightarrow>
          (case getCachedJson env (INVIDIOUS_BASE env @ lit ''/api/v1/search/suggestions?q='' @ eq) s of
             (Inl e, s1) \<Rightarrow> (Inl e, s1)
           | (Inr raw, s1) \<Rightarrow>
               (if is_array raw then (strings_all env raw, s1)
                else case getprop raw (lit ''suggestions'') of
                       Inl e \<Rightarrow> (Inl e, s1)
                     | Inr l \<Rightarrow> (strings_all env (nc l (JArr [])), s1))))"

definition suggest_piped_p1 :: "'b env \<Rightarrow> jsstring \<Rightarrow> 'b state \<Rightarrow> (exn + jsval) \<times> 'b state" where
  "suggest_piped_p1 env q s =
     (case encodeURIComponent env q of
        Inl e \<Rightarrow> (Inl e, s)
      | Inr eq \<Rightarrow>
          (case getCachedJson env (PIPED_BASE env @ lit ''/suggestions?query='' @ eq) s of
             (Inl e, s1) \<Rightarrow> (Inl e, s1)
           | (Inr raw, s1) \<Rightarrow> (strings_all env (nc raw (JArr [])), s1)))"

text \<open>The outer \<^verbatim>\<open>catch\<close> of this revision: status 502 and the text of the exception.\<close>

definition bad_gateway :: "'b env \<Rightarrow> jsstring \<Rightarrow> exn \<Rightarrow> 'b state \<Rightarrow> 'b outcome \<times> 'b state" where
  "bad_gateway env key e s = sendJson env key (no_suggestions (describe env e)) 502 s"

definition handle_suggest_p1 :: "'b env \<Rightarrow> request \<Rightarrow> 'b state \<Rightarrow> 'b outcome \<times> 'b state" where
  "handle_suggest_p1 env req s =
     (case query_text env req of
        Inl e \<Rightarrow> bad_gateway env (originalUrl req) e s
      | Inr q \<Rightarrow>
          (case cache s (originalUrl req) of
             Some (Rendered status body) \<Rightarrow> (Sent status body, s)
           | Some (Raw v) \<Rightarrow> bad_gateway env (originalUrl req) RangeError s
           | None \<Rightarrow>
               (if q = [] then sendJson env (originalUrl req) (suggestions (JArr [])) 200 s
                else case suggest_invidious_p1 env q s of
                       (Inr l, s1) \<Rightarrow> sendJson env (originalUrl req) (suggestions l) 200 s1
                     | (Inl _, s1) \<Rightarrow>
                         (case suggest_piped_p1 env q s1 of
                            (Inr l, s2) \<Rightarrow> sendJson env (originalUrl req) (suggestions l) 200 s2
                          | (Inl e, s2) \<Rightarrow> bad_gateway env (originalUrl req) e s2))))"

section \<open>Routes, item mappings and a sample world\<close>

text \<open>The three routes of \<^verbatim>\<open>src/server.js\<close> and the result each sends for an empty query.\<close>

datatype endpoint = Suggest | Search | Channels

fun serve :: "endpoint \<Rightarrow> 'b env \<Rightarrow> request \<Rightarrow> 'b state \<Rightarrow> 'b outcome \<times> 'b state" where
  "serve Suggest = handle_suggest"
| "serve Search = handle_search"
| "serve Channels = handle_channels"

fun empty_result :: "endpoint \<Rightarrow> jsval" where
  "empty_result Suggest = suggestions (JArr [])"
| "empty_result Search = empty_page"
| "empty_result Channels = empty_page"





text \<open>The first alias of the view count that is present.\<close>

definition first_views :: "jsval \<Rightarrow> jsval" where
  "first_views v = nc (field v (lit ''viewCount'')) (field v (lit ''views''))"

text \<open>
  A sample world for worked examples. Bodies are the payloads themselves, whole numbers
  print as their digits, a URI component is percent-encoded through UTF-8, and no
  upstream can be reached; \<open>answering v\<close> is the same world with every upstream
  answering the document \<open>v\<close>, and in \<open>invidious_null\<close> Invidious answers
  \<^verbatim>\<open>[null]\<close> and every other upstream the empty list.
\<close>

definition hex_digit :: "nat \<Rightarrow> nat" where
  "hex_digit d = (if d < 10 then 48 + d else 55 + d)"

definition pct :: "nat \<Rightarrow> jsstring" where
  "pct b = [37, hex_digit (b div 16), hex_digit (b mod 16)]"

definition utf8 :: "nat \<Rightarrow> jsstring" where
  "utf8 cp =
     (if cp < 128 then pct cp
      else if cp < 2048 then pct (192 + cp div 64) @ pct (128 + cp mod 64)
      else if cp < 65536 then
        pct (224 + cp div 4096) @ pct (128 + cp div 64 mod 64) @ pct (128 + cp mod 64)
      else pct (240 + cp div 262144) @ pct (128 + cp div 4096 mod 64)
           @ pct (128 + cp div 64 mod 64) @ pct (128 + cp mod 64))"

definition unreserved :: "nat \<Rightarrow> bool" where
  "unreserved c =
     ((65 \<le> c \<and> c \<le> 90) \<or> (97 \<le> c \<and> c \<le> 122) \<or> (48 \<le> c \<and> c \<le> 57)
      \<or> c \<in> set [45, 95, 46, 33, 126, 42, 39, 40, 41])"

fun percent_encode :: "jsstring \<Rightarrow> exn + jsstring" where
  "percent_encode [] = Inr []"
| "percent_encode (c # cs) =
     (if 55296 \<le> c \<and> c < 56320 then
        (case cs of
           [] \<Rightarrow> Inl URIError
         | d # ds \<Rightarrow>
             (if 56320 \<le> d \<and> d < 57344 then
                (case percent_encode ds of
                   Inl e \<Rightarrow> Inl e
                 | Inr r \<Rightarrow> Inr (utf8 (65536 + (c - 55296) * 1024 + (d - 56320)) @ r))
              else Inl URIError))
      else if 56320 \<le> c \<and> c < 57344 then Inl URIError
      else (case percent_encode cs of
              Inl e \<Rightarrow> Inl e
            | Inr r \<Rightarrow> Inr ((if unreserved c then [c] else utf8 c) @ r)))"

definition whole_digits :: "jsnum \<Rightarrow> jsstring" where
  "whole_digits n = (case n of Fin r \<Rightarrow> dec_digits (nat \<lfloor>r\<rfloor>) | _ \<Rightarrow> lit ''NaN'')"

definition offline :: "jsval env" where
  "offline =
     \<lparr>INVIDIOUS_POOL = [lit ''https://inv.test''],
      PIPED_POOL = [lit ''https://pip.test''],
      INVIDIOUS_BASE = lit ''https://inv.test'',
      PIPED_BASE = lit ''https://pip.test'',
      SUGGEST_HL = lit ''en'',
      SUGGEST_GL = lit ''US'',
      stringify = (\<lambda>v. v),
      JSON_parse = (\<lambda>t. Inl SyntaxError),
      encodeURIComponent = percent_encode,
      num_to_string = whole_digits,
      describe = (\<lambda>e. lit ''Error''),
      capture = (\<lambda>re html. None),
      fetch_text = (\<lambda>u. Inl FetchError),
      latency = (\<lambda>u. 0)\<rparr>"

definition answering :: "jsval \<Rightarrow> jsval env" where
  "answering v = offline\<lparr>fetch_text := (\<lambda>u. Inr []), JSON_parse := (\<lambda>t. Inr v)\<rparr>"

definition invidious_null :: "jsval env" where
  "invidious_null =
     offline\<lparr>fetch_text := (\<lambda>u. if starts_with (lit ''https://inv.test'') u
                                then Inr (lit ''[null]'') else Inr (lit ''[]'')),
             JSON_parse := (\<lambda>t. if t = lit ''[null]'' then Inr (JArr [JNull]) else Inr (JArr []))\<rparr>"

definition fresh :: "'b state" where
  "fresh = \<lparr>cache = Map.empty, issued = [], pending = []\<rparr>"

definition ask :: "string \<Rightarrow> string \<Rightarrow> request" where
  "ask url q = \<lparr>originalUrl = lit url, query_q = JStr (lit q), query_page = JUndef\<rparr>"

definition fifteen :: "jsval list" where
  "fifteen = map (\<lambda>i. JStr (lit ''s'' @ dec_digits i)) [1..<16]"

section \<open>Evaluation rules\<close>

declare dec_digits.simps [simp del]

declare bitlen.simps [simp del]

lemma lit_eq_iff [simp]: "lit a = lit b \<longleftrightarrow> a = b"
  unfolding lit_def by (simp add: inj_map_eq_map inj_on_def)

lemma lit_not_empty: "lit (c # cs) \<noteq> []"
  by (simp add: lit_def)

text \<open>A whole number below \<open>2 ^ 53\<close> is a binary64 value: rounding leaves it alone.\<close>

lemma bitlen_bounds: "0 < n \<Longrightarrow> 2 ^ (bitlen n - 1) \<le> n \<and> n < 2 ^ bitlen n"
proof (induction n rule: bitlen.induct)
  case (1 n)
  show ?case
  proof (cases "n div 2 = 0")
    case True
    with 1(2) have "n = 1" by (simp add: div_eq_0_iff)
    then show ?thesis by (simp add: bitlen.simps)
  next
    case False
    with 1 have ih: "2 ^ (bitlen (n div 2) - 1) \<le> n div 2" "n div 2 < 2 ^ bitlen (n div 2)"
      by auto
    from False have pos: "0 < bitlen (n div 2)"
      by (subst bitlen.simps) simp
    have bl: "bitlen n = Suc (bitlen (n div 2))"
      using 1(2) by (subst bitlen.simps) simp
    from pos have "(2::nat) ^ bitlen (n div 2) = 2 * 2 ^ (bitlen (n div 2) - 1)"
      by (cases "bitlen (n div 2)") simp_all
    with ih(1) have lo: "2 ^ bitlen (n div 2) \<le> n" by simp
    from ih(2) have "n < 2 * 2 ^ bitlen (n div 2)" by simp
    with lo bl show ?thesis by simp
  qed
qed

lemma round_half_even_int: "round_half_even (of_int m) = m"
  by (simp add: round_half_even_def)

lemma round64_nat:
  assumes "0 < n" and "n < 2 ^ 53"
  shows "round64 (of_nat n) = Fin (of_nat n)"
proof -
  from bitlen_bounds [OF assms(1)] have lo: "2 ^ (bitlen n - 1) \<le> n" and hi: "n < 2 ^ bitlen n"
    by simp_all
  from assms(1) have bp: "0 < bitlen n"
    by (subst bitlen.simps) simp
  have b53: "bitlen n \<le> 53"
  proof (rule ccontr)
    assume "\<not> bitlen n \<le> 53"
    then have "53 \<le> bitlen n - 1" by simp
    then have "(2::nat) ^ 53 \<le> 2 ^ (bitlen n - 1)" by (rule power_increasing) simp
    with lo assms(2) show False by simp
  qed
  have q: "quotient_of (of_nat n :: rat) = (int n, 1)"
    using quotient_of_int [of "int n"] by simp
  have one: "bitlen (Suc 0) = 1"
    by (simp add: bitlen.simps)
  define k where "k = 53 - bitlen n"
  have p: "pow2 (int (bitlen n) - 1) = 2 ^ (bitlen n - 1)"
    using bp by (simp add: pow2_def nat_diff_distrib')
  have "(of_nat (2 ^ (bitlen n - 1)) :: rat) \<le> of_nat n"
    using lo by (simp only: of_nat_le_iff)
  then have le: "pow2 (int (bitlen n) - 1) \<le> (of_nat n :: rat)"
    by (simp add: p)
  have e: "binary_exponent (of_nat n) = int (bitlen n) - 1"
    using le by (simp add: binary_exponent_def q one Let_def)
  have u: "pow2 (max (int (bitlen n) - 1) (- 1022) - 52) = 1 / 2 ^ k"
    using bp b53 by (auto simp add: pow2_def k_def max_def nat_diff_distrib')
  have r: "round_half_even (of_nat n / (1 / 2 ^ k)) = int n * 2 ^ k"
    using round_half_even_int [of "int n * 2 ^ k"] by simp
  have y: "rat_of_int (int n * 2 ^ k) * (1 / 2 ^ k) = of_nat n"
    by simp
  have "(of_nat n :: rat) < of_nat (2 ^ 53)"
    using assms(2) by (simp only: of_nat_less_iff)
  also have "(of_nat (2 ^ 53) :: rat) \<le> pow2 1024"
    by (simp add: pow2_def)
  finally have big: "\<not> pow2 1024 \<le> (of_nat n :: rat)"
    by simp
  from assms(1) have nz: "(of_nat n :: rat) \<noteq> 0" "\<not> (of_nat n :: rat) < 0"
    by simp_all
  show ?thesis
    unfolding round64_def
    by (simp only: nz if_False abs_of_nat e u r y big Let_def)
qed

lemma round64_numeral: "numeral k < (2::nat) ^ 53 \<Longrightarrow> round64 (numeral k) = Fin (numeral k)"
  using round64_nat [of "numeral k"] by simp

lemma round64_0: "round64 0 = Fin 0"
  by (simp add: round64_def)

lemma round64_1: "round64 1 = Fin 1"
  using round64_nat [of 1] by simp

lemmas round_rules = round64_numeral round64_0 round64_1

lemmas value_defs = lor_def nc_def opt_def getprop_def opt_elem_def trim_def is_ws_def lit_def

lemmas parse_defs = StringToNumber_def literal_value_def parse_signed_def parse_unsigned_def
  parse_decimal_def parse_mantissa_def parse_exponent_def parse_digits_def opt_digits_def
  digit_of_def radix_of_def scale10_def round_rules

lemmas infra_defs = sendJson_def upstream_key_def fetchText_def fetchJson_result_def fetchJson_def
  getCached_def firstResolved_def strip_bom_def List.map_filter_def pool_urls_def query_text_def
  page_number_def fetch_json_def getCachedJson_def firstOk_def finish_def

lemmas encode_defs = utf8_def pct_def hex_digit_def unreserved_def

lemmas world_defs = offline_def answering_def invidious_null_def fresh_def ask_def whole_digits_def
  dec_digits.simps encode_defs round_rules

section \<open>The rendered-response cache\<close>

lemma hit_suggest:
  "cache s (originalUrl req) = Some (Rendered status body) \<Longrightarrow> query_text env req = Inr q \<Longrightarrow>
   handle_suggest env req s = (Sent status body, s)"
  by (simp add: handle_suggest_def)

lemma hit_search:
  "cache s (originalUrl req) = Some (Rendered status body) \<Longrightarrow> query_text env req = Inr q \<Longrightarrow>
   page_number env req = Inr page \<Longrightarrow> handle_search env req s = (Sent status body, s)"
  by (simp add: handle_search_def)

lemma hit_channels:
  "cache s (originalUrl req) = Some (Rendered status body) \<Longrightarrow> query_text env req = Inr q \<Longrightarrow>
   page_number env req = Inr page \<Longrightarrow> handle_channels env req s = (Sent status body, s)"
  by (simp add: handle_channels_def)

text \<open>
  Claim C3. When the store holds a rendered entry under the request's
  \<^verbatim>\<open>originalUrl\<close>, each of the three handlers answers with exactly the stored status
  and body and leaves the state as it was: nothing is fetched, nothing is normalised,
  nothing is stored, no tier is entered. The handler coerces \<^verbatim>\<open>q\<close> (and \<^verbatim>\<open>page\<close>, on
  the two search routes) before it looks at the store, so the statement is about requests
  whose parameters coerce, as every string and every absent parameter does.
\<close>

theorem rendered_hit_replayed:
  assumes "cache s (originalUrl req) = Some (Rendered status body)"
    and "query_text env req = Inr q"
    and "ep \<noteq> Suggest \<longrightarrow> page_number env req = Inr page"
  shows "serve ep env req s = (Sent status body, s)"
  using assms by (cases ep) (simp_all add: hit_suggest hit_search hit_channels)

theorem rendered_hit_replayed_witness:
  "cache (fresh\<lparr>cache := [lit ''/search?q=cat'' \<mapsto> Rendered 200 empty_page]\<rparr>)
       (originalUrl (ask ''/search?q=cat'' ''cat'')) = Some (Rendered 200 empty_page)
   \<and> query_text offline (ask ''/search?q=cat'' ''cat'') = Inr (lit ''cat'')
   \<and> page_number offline (ask ''/search?q=cat'' ''cat'') = Inr (Fin 1)
   \<and> serve Search offline (ask ''/search?q=cat'' ''cat'')
        (fresh\<lparr>cache := [lit ''/search?q=cat'' \<mapsto> Rendered 200 empty_page]\<rparr>)
      = (Sent 200 empty_page, fresh\<lparr>cache := [lit ''/search?q=cat'' \<mapsto> Rendered 200 empty_page]\<rparr>)"
proof -
  have a: "cache (fresh\<lparr>cache := [lit ''/search?q=cat'' \<mapsto> Rendered 200 empty_page]\<rparr>)
             (originalUrl (ask ''/search?q=cat'' ''cat'')) = Some (Rendered 200 empty_page)"
    by (simp add: ask_def)
  have b: "query_text offline (ask ''/search?q=cat'' ''cat'') = Inr (lit ''cat'')"
    by (simp add: query_text_def world_defs value_defs)
  have c: "page_number offline (ask ''/search?q=cat'' ''cat'') = Inr (Fin 1)"
    by (simp add: page_number_def world_defs value_defs)
  from rendered_hit_replayed [of _ _ _ _ offline _ Search, OF a b] a b c show ?thesis
    by simp
qed

section \<open>Empty and blank queries\<close>

lemma trim_blank: "list_all is_ws w \<Longrightarrow> trim w = []"
proof -
  assume "list_all is_ws w"
  then have "dropWhile is_ws w = []" by (simp add: list_all_iff)
  then show ?thesis unfolding trim_def by (simp del: dropWhile_eq_Nil_conv)
qed


lemma query_text_missing:
  "query_q req = JUndef \<or> query_q req = JStr [] \<Longrightarrow> query_text env req = Inr []"
  by (auto simp add: query_text_def lor_def trim_def)

lemma sendJson_issued: "issued (snd (sendJson env key payload status s)) = issued s"
  by (simp add: sendJson_def Let_def)

lemma replay_issued: "issued (snd (replay hit s)) = issued s"
  by (cases hit) simp_all

lemma serve_blank:
  assumes "query_text env req = Inr []"
  shows "serve ep env req s =
     (case (if ep = Suggest then Inr (Fin 1) else page_number env req) of
        Inl e \<Rightarrow> (Crashed, s)
      | Inr page \<Rightarrow>
          (case cache s (originalUrl req) of
             None \<Rightarrow> sendJson env (originalUrl req) (empty_result ep) 200 s
           | Some hit \<Rightarrow> replay hit s))"
  using assms
  by (cases ep)
     (simp_all add: handle_suggest_def handle_search_def handle_channels_def
        split: sum.splits option.splits)

text \<open>
  Claim C7, at the input where it fails. \<^verbatim>\<open>GET /search?page[toString]=x\<close> has no
  \<^verbatim>\<open>q\<close>, and its \<^verbatim>\<open>page\<close> is the object \<^verbatim>\<open>{ toString: "x" }\<close>. On \<^verbatim>\<open>src/server.js\<close>
  \<^verbatim>\<open>Number(req.query.page || 1)\<close> throws before the guard on \<^verbatim>\<open>q\<close> is reached and
  outside every \<^verbatim>\<open>try\<close>: the handler of \<^verbatim>\<open>/search\<close>, and likewise that of
  \<^verbatim>\<open>/channels\<close>, sends no response and stores nothing, where the claim has the empty
  result \<^verbatim>\<open>{ items: [], nextPage: null }\<close>.
\<close>

theorem empty_query_page_crash:
  "handle_search offline
        \<lparr>originalUrl = lit ''/search?page[toString]=x'', query_q = JUndef,
         query_page = JObj [(lit ''toString'', JStr (lit ''x''))]\<rparr> fresh
     = (Crashed, fresh)
   \<and> handle_channels offline
        \<lparr>originalUrl = lit ''/channels?page[toString]=x'', query_q = JUndef,
         query_page = JObj [(lit ''toString'', JStr (lit ''x''))]\<rparr> fresh
     = (Crashed, fresh)"
  by (simp add: handle_search_def handle_channels_def query_text_def page_number_def
        value_defs trim_def)

text \<open>
  Whenever the page does coerce, and always on \<^verbatim>\<open>/suggest\<close>, a request whose \<^verbatim>\<open>q\<close> is
  missing or the empty string issues no fetch: with nothing stored under its URL the
  handler sends, with status 200, \<^verbatim>\<open>{ suggestions: [] }\<close> on \<^verbatim>\<open>/suggest\<close> and
  \<^verbatim>\<open>{ items: [], nextPage: null }\<close> on \<^verbatim>\<open>/search\<close> and \<^verbatim>\<open>/channels\<close>, and stores it;
  with an entry stored (by an earlier request for the same URL) it replays that entry.
\<close>

lemma empty_query_guard:
  assumes "query_q req = JUndef \<or> query_q req = JStr []"
    and "ep \<noteq> Suggest \<longrightarrow> page_number env req = Inr page"
  shows "serve ep env req s =
           (case cache s (originalUrl req) of
              None \<Rightarrow> sendJson env (originalUrl req) (empty_result ep) 200 s
            | Some hit \<Rightarrow> replay hit s)
         \<and> issued (snd (serve ep env req s)) = issued s"
proof -
  have q: "query_text env req = Inr []"
    using assms(1) by (rule query_text_missing)
  show ?thesis
    using assms(2)
    by (simp add: serve_blank [OF q] sendJson_issued replay_issued split: option.splits)
qed

lemma empty_query_guard_sample:
  "(query_q (ask ''/channels?q='' []) = JUndef \<or> query_q (ask ''/channels?q='' []) = JStr [])
   \<and> page_number offline (ask ''/channels?q='' []) = Inr (Fin 1)
   \<and> serve Channels offline (ask ''/channels?q='' []) fresh
      = (Sent 200 (JObj [(lit ''items'', JArr []), (lit ''nextPage'', JNull)]),
         fresh\<lparr>cache := [lit ''/channels?q='' \<mapsto>
                  Rendered 200 (JObj [(lit ''items'', JArr []), (lit ''nextPage'', JNull)])]\<rparr>)
   \<and> issued (snd (serve Channels offline (ask ''/channels?q='' []) fresh)) = []"
proof -
  have a: "query_q (ask ''/channels?q='' []) = JUndef \<or> query_q (ask ''/channels?q='' []) = JStr []"
    by (simp add: ask_def lit_def)
  have b: "page_number offline (ask ''/channels?q='' []) = Inr (Fin 1)"
    by (simp add: page_number_def world_defs value_defs)
  have c: "Channels \<noteq> Suggest \<longrightarrow> page_number offline (ask ''/channels?q='' []) = Inr (Fin 1)"
    using b by simp
  have m: "cache (fresh :: jsval state) (originalUrl (ask ''/channels?q='' [])) = None"
    by (simp add: fresh_def)
  have k: "originalUrl (ask ''/channels?q='' []) = lit ''/channels?q=''"
    by (simp add: ask_def)
  have o: "stringify offline = (\<lambda>v. v)"
    by (simp add: offline_def)
  have i: "issued (fresh :: jsval state) = []"
    by (simp add: fresh_def)
  from empty_query_guard [OF a c, of fresh] a b show ?thesis
    by (simp add: o sendJson_def empty_page_def fresh_def ask_def Let_def)
qed




section \<open>Responses are stored\<close>

lemma sendJson_stored:
  "sendJson env key payload st s = (Sent status body, s') \<Longrightarrow>
   cache s' key = Some (Rendered status body)"
  by (auto simp add: sendJson_def Let_def)

lemma replay_stored:
  "cache s key = Some hit \<Longrightarrow> replay hit s = (Sent status body, s') \<Longrightarrow>
   cache s' key = Some (Rendered status body)"
  by (cases hit) auto

lemma suggest_stored:
  "handle_suggest env req s = (Sent status body, s') \<Longrightarrow>
   cache s' (originalUrl req) = Some (Rendered status body) \<and> (\<exists>q. query_text env req = Inr q)"
  by (auto simp add: handle_suggest_def split: sum.splits option.splits if_splits prod.splits
        dest: sendJson_stored replay_stored)

lemma search_stored:
  "handle_search env req s = (Sent status body, s') \<Longrightarrow>
   cache s' (originalUrl req) = Some (Rendered status body)
   \<and> (\<exists>q. query_text env req = Inr q) \<and> (\<exists>p. page_number env req = Inr p)"
  by (auto simp add: handle_search_def finish_def
        split: sum.splits option.splits if_splits prod.splits
        dest: sendJson_stored replay_stored)

lemma channels_stored:
  "handle_channels env req s = (Sent status body, s') \<Longrightarrow>
   cache s' (originalUrl req) = Some (Rendered status body)
   \<and> (\<exists>q. query_text env req = Inr q) \<and> (\<exists>p. page_number env req = Inr p)"
  by (auto simp add: handle_channels_def finish_def
        split: sum.splits option.splits if_splits prod.splits
        dest: sendJson_stored replay_stored)

lemma query_text_world:
  "query_text (env\<lparr>fetch_text := f, latency := l\<rparr>) req = query_text env req"
  by (simp add: query_text_def)

lemma page_number_world:
  "page_number (env\<lparr>fetch_text := f, latency := l\<rparr>) req = page_number env req"
  by (simp add: page_number_def)

text \<open>
  Claim C9. Whatever response a handler sends, the degraded ones with an error marker
  included, is in the store under the request's \<^verbatim>\<open>originalUrl\<close> when the handler is
  done. While that entry is live, the same request is answered with the same status
  and body, whatever the upstreams would answer then (\<open>f\<close>, \<open>l\<close>), and the state does
  not change: no upstream is tried again. The store is a map of live entries, so expiry
  and eviction are the entry no longer being there.
\<close>

theorem response_stored_then_replayed:
  assumes "serve ep env req s = (Sent status body, s')"
  shows "cache s' (originalUrl req) = Some (Rendered status body)
         \<and> (\<forall>f l t. cache t (originalUrl req) = Some (Rendered status body) \<longrightarrow>
               serve ep (env\<lparr>fetch_text := f, latency := l\<rparr>) req t = (Sent status body, t))"
proof (cases ep)
  case Suggest
  with assms show ?thesis
    by (auto dest!: suggest_stored simp add: hit_suggest query_text_world)
next
  case Search
  with assms show ?thesis
    by (auto dest!: search_stored simp add: hit_search query_text_world page_number_world)
next
  case Channels
  with assms show ?thesis
    by (auto dest!: channels_stored simp add: hit_channels query_text_world page_number_world)
qed

lemma offline_search:
  "handle_search offline (ask ''/search?q=cat'' ''cat'') fresh
   = (Sent 200 (unavailable (JArr []) (Fin 1)),
      \<lparr>cache = [lit ''/search?q=cat'' \<mapsto> Rendered 200 (unavailable (JArr []) (Fin 1))],
       issued = [lit ''https://inv.test/api/v1/search?q=cat&page=1'',
                 lit ''https://pip.test/search?query=cat&page=1'',
                 lit ''https://pip.test/api/v1/search?q=cat&page=1'',
                 lit ''https://www.youtube.com/results?search_query=cat&hl=en&gl=US''],
       pending = []\<rparr>)"
  by (simp add: handle_search_def search_try_def search_inv_urls_def search_pip_urls_def
        json_tier_def search_last_def ytHtmlFallbackSearch_def
        infra_defs world_defs value_defs Let_def)

theorem response_stored_then_replayed_witness:
  "serve Search offline (ask ''/search?q=cat'' ''cat'') fresh
     = (Sent 200 (unavailable (JArr []) (Fin 1)),
        snd (serve Search offline (ask ''/search?q=cat'' ''cat'') fresh))
   \<and> cache (snd (serve Search offline (ask ''/search?q=cat'' ''cat'') fresh)) (lit ''/search?q=cat'')
       = Some (Rendered 200 (unavailable (JArr []) (Fin 1)))
   \<and> serve Search (offline\<lparr>fetch_text := (\<lambda>u. Inr (lit ''[]'')), latency := (\<lambda>u. 7)\<rparr>)
        (ask ''/search?q=cat'' ''cat'') (snd (serve Search offline (ask ''/search?q=cat'' ''cat'') fresh))
     = (Sent 200 (unavailable (JArr []) (Fin 1)),
        snd (serve Search offline (ask ''/search?q=cat'' ''cat'') fresh))"
proof -
  have a: "serve Search offline (ask ''/search?q=cat'' ''cat'') fresh
     = (Sent 200 (unavailable (JArr []) (Fin 1)),
        snd (serve Search offline (ask ''/search?q=cat'' ''cat'') fresh))"
    by (simp add: offline_search)
  have k: "originalUrl (ask ''/search?q=cat'' ''cat'') = lit ''/search?q=cat''"
    by (simp add: ask_def)
  from response_stored_then_replayed [OF a] have
    "cache (snd (serve Search offline (ask ''/search?q=cat'' ''cat'') fresh))
        (originalUrl (ask ''/search?q=cat'' ''cat''))
       = Some (Rendered 200 (unavailable (JArr []) (Fin 1)))
     \<and> (\<forall>f l t. cache t (originalUrl (ask ''/search?q=cat'' ''cat''))
                   = Some (Rendered 200 (unavailable (JArr []) (Fin 1))) \<longrightarrow>
           serve Search (offline\<lparr>fetch_text := f, latency := l\<rparr>) (ask ''/search?q=cat'' ''cat'') t
             = (Sent 200 (unavailable (JArr []) (Fin 1)), t))" .
  with a k show ?thesis
    by metis
qed

section \<open>The HTML fallback\<close>

lemma try_patterns_none:
  assumes "\<And>re m. capture env re html = Some m \<Longrightarrow> m \<noteq> [] \<Longrightarrow> isl (JSON_parse env m)"
  shows "try_patterns env ps html = JNull"
proof (induction ps)
  case Nil
  show ?case by simp
next
  case (Cons re ps)
  show ?case
  proof (cases "capture env re html")
    case None
    with Cons show ?thesis by simp
  next
    case (Some m)
    show ?thesis
    proof (cases "m = []")
      case True
      with Some Cons show ?thesis by simp
    next
      case False
      with Some assms have "isl (JSON_parse env m)" by blast
      with Some False Cons show ?thesis
        by (cases "JSON_parse env m") simp_all
    qed
  qed
qed

text \<open>
  Claim C8. The results page has been fetched, and none of the three patterns finds a
  blob that parses: a pattern does not match, or its capture is empty, or
  \<^verbatim>\<open>JSON.parse\<close> throws on it. Then \<^verbatim>\<open>ytHtmlFallbackSearch\<close> does not throw: it
  returns \<^verbatim>\<open>{ items: [], nextPage: 2, error: "yt_html_parse_failed" }\<close>, having issued
  the one fetch of the page.
\<close>

theorem html_parse_failure_marker:
  assumes "encodeURIComponent env q = Inr eq"
    and "fetch_text env (lit ''https://www.youtube.com/results?search_query='' @ eq
                         @ lit ''&hl='' @ SUGGEST_HL env @ lit ''&gl='' @ SUGGEST_GL env) = Inr html"
    and "\<And>re m. capture env re html = Some m \<Longrightarrow> m \<noteq> [] \<Longrightarrow> isl (JSON_parse env m)"
  shows "ytHtmlFallbackSearch env q s =
           (Inr (JObj [(lit ''items'', JArr []), (lit ''nextPage'', JNum (Fin 2)),
                       (lit ''error'', JStr (lit ''yt_html_parse_failed''))]),
            s\<lparr>issued := issued s @ [lit ''https://www.youtube.com/results?search_query='' @ eq
                                      @ lit ''&hl='' @ SUGGEST_HL env @ lit ''&gl='' @ SUGGEST_GL env]\<rparr>)"
proof -
  have "extractJSONFromHTML env html = JNull"
    unfolding extractJSONFromHTML_def using assms(3) by (rule try_patterns_none)
  with assms(1,2) show ?thesis
    by (simp add: ytHtmlFallbackSearch_def fetchText_def parse_failed_def)
qed

theorem html_parse_failure_marker_witness:
  "ytHtmlFallbackSearch
     (offline\<lparr>fetch_text := (\<lambda>u. Inr (lit ''<html>var ytInitialData = {oops;</script></html>'')),
              capture := (\<lambda>re html. if re = VarAssign then Some (lit ''{oops'') else None)\<rparr>)
     (lit ''cat'') fresh
   = (Inr (JObj [(lit ''items'', JArr []), (lit ''nextPage'', JNum (Fin 2)),
                 (lit ''error'', JStr (lit ''yt_html_parse_failed''))]),
      fresh\<lparr>issued := [lit ''https://www.youtube.com/results?search_query=cat&hl=en&gl=US'']\<rparr>)"
proof -
  let ?env = "offline\<lparr>fetch_text := (\<lambda>u. Inr (lit ''<html>var ytInitialData = {oops;</script></html>'')),
                      capture := (\<lambda>re html. if re = VarAssign then Some (lit ''{oops'') else None)\<rparr>"
  have a: "encodeURIComponent ?env (lit ''cat'') = Inr (lit ''cat'')"
    by (simp add: offline_def lit_def encode_defs)
  have b: "fetch_text ?env (lit ''https://www.youtube.com/results?search_query='' @ lit ''cat''
                         @ lit ''&hl='' @ SUGGEST_HL ?env @ lit ''&gl='' @ SUGGEST_GL ?env)
           = Inr (lit ''<html>var ytInitialData = {oops;</script></html>'')"
    by (simp add: offline_def)
  have c: "\<And>re m. capture ?env re (lit ''<html>var ytInitialData = {oops;</script></html>'') = Some m
             \<Longrightarrow> m \<noteq> [] \<Longrightarrow> isl (JSON_parse ?env m)"
    by (simp add: offline_def)
  from html_parse_failure_marker [where env = ?env and s = fresh, OF a b c] show ?thesis
    by (simp add: offline_def fresh_def lit_def)
qed

section \<open>The status and the length of a suggestion response\<close>

lemma sendJson_status:
  "sendJson env key payload st s = (Sent status body, s') \<Longrightarrow> status = st"
  by (auto simp add: sendJson_def Let_def)

text \<open>
  In \<^verbatim>\<open>src/server.js\<close> and in \<^verbatim>\<open>src/unnamed/part_000\<close> a response that is not a replay
  has status 200, on every path.
\<close>

lemma suggest_miss_status:
  "cache s (originalUrl req) = None \<Longrightarrow> handle_suggest env req s = (Sent status body, s') \<Longrightarrow>
   status = 200"
  by (auto simp add: handle_suggest_def split: sum.splits option.splits if_splits prod.splits
        dest: sendJson_status)

lemma suggest_p0_miss_status:
  "cache s (originalUrl req) = None \<Longrightarrow> handle_suggest_p0 env req s = (Sent status body, s') \<Longrightarrow>
   status = 200"
  by (auto simp add: handle_suggest_p0_def after_invidious_p0_def after_piped_p0_def
        split: sum.splits option.splits if_splits prod.splits dest: sendJson_status)

text \<open>
  Claim C1, at the input where it fails. In \<^verbatim>\<open>src/unnamed/part_001\<close>, with nothing
  stored and both upstreams unreachable, \<^verbatim>\<open>GET /suggest?q=cat\<close> is answered with status
  502 and \<^verbatim>\<open>{ suggestions: [], error: String(e) }\<close>, after one fetch to each base.
\<close>

theorem suggest_p1_bad_gateway:
  "handle_suggest_p1 offline (ask ''/suggest?q=cat'' ''cat'') fresh
   = (Sent 502 (JObj [(lit ''suggestions'', JArr []), (lit ''error'', JStr (lit ''Error''))]),
      \<lparr>cache = [lit ''/suggest?q=cat'' \<mapsto>
                  Rendered 502 (JObj [(lit ''suggestions'', JArr []),
                                      (lit ''error'', JStr (lit ''Error''))])],
       issued = [lit ''https://inv.test/api/v1/search/suggestions?q=cat'',
                 lit ''https://pip.test/suggestions?query=cat''],
       pending = []\<rparr>)"
  by (simp add: handle_suggest_p1_def suggest_invidious_p1_def suggest_piped_p1_def bad_gateway_def
        no_suggestions_def infra_defs world_defs value_defs Let_def)

text \<open>In general: when both upstreams of \<^verbatim>\<open>part_001\<close> fail, the status is 502.\<close>

lemma suggest_p1_failure:
  assumes "query_text env req = Inr q" and "q \<noteq> []" and "cache s (originalUrl req) = None"
    and "suggest_invidious_p1 env q s = (Inl e1, s1)"
    and "suggest_piped_p1 env q s1 = (Inl e2, s2)"
  shows "handle_suggest_p1 env req s
         = sendJson env (originalUrl req) (no_suggestions (describe env e2)) 502 s2"
  using assms by (simp add: handle_suggest_p1_def bad_gateway_def)

text \<open>The same request in the same world on \<^verbatim>\<open>src/server.js\<close>: status 200.\<close>

lemma suggest_offline:
  "fst (handle_suggest offline (ask ''/suggest?q=cat'' ''cat'') fresh)
   = Sent 200 (JObj [(lit ''suggestions'', JArr []),
                     (lit ''error'', JStr (lit ''upstream_unavailable''))])"
  by (simp add: handle_suggest_def suggest_try_def suggest_inv_urls_def suggest_pip_urls_def
        suggest_google_def google_url_def no_suggestions_def infra_defs world_defs value_defs Let_def)

lemma map_try_length: "map_try f xs = Inr ys \<Longrightarrow> length ys = length xs"
  by (induction xs arbitrary: ys) (auto split: sum.splits)

text \<open>\<^verbatim>\<open>list.map(String).slice(0, 10)\<close> keeps the first ten strings, in order.\<close>

lemma strings10_prefix:
  "strings10 env l = Inr out \<Longrightarrow>
   \<exists>xs ss. l = JArr xs \<and> map_try (ToString (num_to_string env)) xs = Inr ss
           \<and> out = JArr (map JStr (take 10 ss)) \<and> length (take 10 ss) \<le> 10"
  by (auto simp add: strings10_def split: jsval.splits sum.splits)

lemma fifteen_strings:
  "map_try (ToString f) fifteen = Inr (map (\<lambda>i. lit ''s'' @ dec_digits i) [1..<16])"
  by (simp add: fifteen_def upt_rec)

lemma fifteen_all: "strings_all env (JArr fifteen) = Inr (JArr fifteen)"
  by (simp add: strings_all_def fifteen_strings, simp add: fifteen_def)

lemma fifteen_ten: "strings10 env (JArr fifteen) = Inr (JArr (take 10 fifteen))"
  by (simp add: strings10_def fifteen_strings, simp add: fifteen_def take_map)

text \<open>
  Claim C5, at the input where it fails. In \<^verbatim>\<open>src/unnamed/part_001\<close>, when Invidious
  answers with fifteen suggestion strings, all fifteen are sent.
\<close>

theorem suggest_p1_uncapped:
  "fst (handle_suggest_p1 (answering (JArr fifteen)) (ask ''/suggest?q=cat'' ''cat'') fresh)
     = Sent 200 (JObj [(lit ''suggestions'', JArr fifteen)])
   \<and> length fifteen = 15"
proof -
  have "fst (handle_suggest_p1 (answering (JArr fifteen)) (ask ''/suggest?q=cat'' ''cat'') fresh)
     = Sent 200 (JObj [(lit ''suggestions'', JArr fifteen)])"
    by (simp add: handle_suggest_p1_def suggest_invidious_p1_def suggestions_def fifteen_all
          infra_defs offline_def answering_def fresh_def ask_def value_defs Let_def)
  moreover have "length fifteen = 15"
    by (simp add: fifteen_def)
  ultimately show ?thesis by simp
qed

text \<open>The same request in the same world on \<^verbatim>\<open>src/server.js\<close>: the first ten.\<close>

lemma suggest_capped:
  "fst (handle_suggest (answering (JArr fifteen)) (ask ''/suggest?q=cat'' ''cat'') fresh)
     = Sent 200 (JObj [(lit ''suggestions'', JArr (take 10 fifteen))])"
  by (simp add: handle_suggest_def suggest_try_def suggest_inv_urls_def suggest_pip_urls_def
        suggest_list_def suggestions_def fifteen_ten
        infra_defs offline_def answering_def fresh_def ask_def value_defs Let_def)

section \<open>Empty tiers\<close>











section \<open>View counts\<close>

text \<open>
  Claim C4 as stated fails: a view count that is present but not numeric does not
  normalise to 0. For the raw video \<^verbatim>\<open>{ views: "abc" }\<close> the normalised
  \<^verbatim>\<open>viewCount\<close> is \<^verbatim>\<open>NaN\<close>.
\<close>

theorem view_count_nan:
  "normalizeVideo offline (JObj [(lit ''views'', JStr (lit ''abc''))])
   = Inr (JObj [(lit ''id'', JNull), (lit ''title'', JStr []), (lit ''channelName'', JNull),
                (lit ''channelId'', JNull), (lit ''durationSeconds'', JNull),
                (lit ''viewCount'', JNum NaN), (lit ''publishedText'', JNull),
                (lit ''thumbnails'', JArr [])])"
  by (simp add: normalizeVideo_def thumb_urls_def offline_def value_defs parse_defs)

lemma number_1234: "StringToNumber (lit ''1234'') = Fin 1234"
  by (simp add: parse_defs value_defs)

lemma number_abc: "StringToNumber (lit ''abc'') = NaN"
  by (simp add: parse_defs value_defs)

text \<open>
  A literal whose value is no binary64 number reads as the nearest one: \<open>2 ^ 53 + 1\<close>
  lies half way between two of them and goes to the even one, \<open>2 ^ 53\<close>.
\<close>

lemma round64_tie: "round64 9007199254740993 = Fin 9007199254740992"
proof -
  have q: "quotient_of (9007199254740993 :: rat) = (9007199254740993, 1)"
    by simp
  have b: "bitlen 9007199254740993 = 54" "bitlen (Suc 0) = 1"
    by (simp_all add: bitlen.simps)
  have e: "binary_exponent 9007199254740993 = 53"
    by (simp add: binary_exponent_def q b pow2_def Let_def)
  have f: "\<lfloor>9007199254740993 / 2 :: rat\<rfloor> = 4503599627370496"
    by (simp add: floor_eq_iff)
  have r: "round_half_even (9007199254740993 / 2) = 4503599627370496"
    by (simp add: round_half_even_def f Let_def)
  show ?thesis
    by (simp add: round64_def e pow2_def r Let_def)
qed

lemma number_rounded: "StringToNumber (lit ''9007199254740993'') = Fin 9007199254740992"
proof -
  have "literal_value (trim (lit ''9007199254740993'')) = Some (Fin 9007199254740993)"
    by (simp add: literal_value_def parse_signed_def parse_unsigned_def parse_decimal_def
          parse_mantissa_def parse_exponent_def parse_digits_def opt_digits_def digit_of_def
          radix_of_def scale10_def value_defs)
  then show ?thesis
    by (simp add: StringToNumber_def round64_tie)
qed

lemma number_blank: "list_all is_ws c \<Longrightarrow> StringToNumber c = Fin 0"
  by (simp add: StringToNumber_def literal_value_def trim_blank round64_0)

lemma number_not_literal: "literal_value (trim c) = None \<Longrightarrow> StringToNumber c = NaN"
  by (simp add: StringToNumber_def)

lemma normalizeVideo_viewCount:
  assumes "normalizeVideo env v = Inr d"
  shows "\<exists>n. ToNumber (num_to_string env) (nc (first_views v) (JNum (Fin 0))) = Inr n
            \<and> field d (lit ''viewCount'') = JNum n"
proof -
  from assms have nn: "\<not> nullish v"
    by (simp add: normalizeVideo_def split: if_splits)
  obtain r where r: "ToNumber (num_to_string env) (nc (first_views v) (JNum (Fin 0))) = r"
    by simp
  show ?thesis
  proof (cases r)
    case (Inl e)
    with assms nn r show ?thesis
      by (simp add: normalizeVideo_def first_views_def)
  next
    case (Inr n)
    with assms nn r have "field d (lit ''viewCount'') = JNum n"
      by (simp add: normalizeVideo_def first_views_def split: sum.splits) auto
    with Inr r show ?thesis by simp
  qed
qed

text \<open>
  Claim C4, amended. For every raw video that normalises, \<^verbatim>\<open>viewCount\<close> is \<^verbatim>\<open>Number(x)\<close>
  for the first \<^verbatim>\<open>x\<close> of \<^verbatim>\<open>viewCount\<close>, \<^verbatim>\<open>views\<close> that is neither absent nor \<^verbatim>\<open>null\<close>,
  and it is 0 when both are absent or \<^verbatim>\<open>null\<close>. When \<^verbatim>\<open>x\<close> is a string, the result is
  what the numeric-string grammar gives for it: \<^verbatim>\<open>NaN\<close>, not 0, when the trimmed string
  is no numeric literal (\<^verbatim>\<open>views: "abc"\<close> yields \<^verbatim>\<open>NaN\<close>), 0 when the string is white
  space only or empty, and \<^verbatim>\<open>views: "1234"\<close> yields 1234.
\<close>

theorem view_count_coercion:
  assumes "normalizeVideo env v = Inr d"
  shows "\<exists>n. field d (lit ''viewCount'') = JNum n
            \<and> (\<not> nullish (first_views v) \<longrightarrow>
                 ToNumber (num_to_string env) (first_views v) = Inr n)
            \<and> (nullish (field v (lit ''viewCount'')) \<longrightarrow>
                 first_views v = field v (lit ''views''))
            \<and> (\<not> nullish (field v (lit ''viewCount'')) \<longrightarrow>
                 first_views v = field v (lit ''viewCount''))
            \<and> (nullish (field v (lit ''viewCount'')) \<and> nullish (field v (lit ''views'')) \<longrightarrow>
                 n = Fin 0)
            \<and> (\<forall>c. first_views v = JStr c \<longrightarrow> n = StringToNumber c)
            \<and> (\<forall>c. first_views v = JStr c \<longrightarrow> literal_value (trim c) = None \<longrightarrow> n = NaN)
            \<and> (\<forall>c. first_views v = JStr c \<longrightarrow> list_all is_ws c \<longrightarrow> n = Fin 0)
            \<and> (first_views v = JStr (lit ''abc'') \<longrightarrow> n = NaN)
            \<and> (first_views v = JStr (lit ''1234'') \<longrightarrow> n = Fin 1234)"
proof -
  from normalizeVideo_viewCount [OF assms] obtain n where
    n: "ToNumber (num_to_string env) (nc (first_views v) (JNum (Fin 0))) = Inr n"
    and f: "field d (lit ''viewCount'') = JNum n"
    by blast
  have p: "\<not> nullish (first_views v) \<longrightarrow> ToNumber (num_to_string env) (first_views v) = Inr n"
    using n by (cases "nullish (first_views v)") (simp_all add: nc_def)
  have a1: "nullish (field v (lit ''viewCount'')) \<longrightarrow> first_views v = field v (lit ''views'')"
    and a2: "\<not> nullish (field v (lit ''viewCount'')) \<longrightarrow>
             first_views v = field v (lit ''viewCount'')"
    by (simp_all add: first_views_def nc_def)
  have z: "nullish (field v (lit ''viewCount'')) \<and> nullish (field v (lit ''views'')) \<longrightarrow> n = Fin 0"
    using n by (auto simp add: first_views_def nc_def)
  have c: "\<forall>c. first_views v = JStr c \<longrightarrow> n = StringToNumber c"
    using n by (auto simp add: nc_def)
  from c have c1: "\<forall>c. first_views v = JStr c \<longrightarrow> literal_value (trim c) = None \<longrightarrow> n = NaN"
    by (simp add: number_not_literal)
  from c have c2: "\<forall>c. first_views v = JStr c \<longrightarrow> list_all is_ws c \<longrightarrow> n = Fin 0"
    by (simp add: number_blank)
  from c have c3: "first_views v = JStr (lit ''abc'') \<longrightarrow> n = NaN"
    by (simp add: number_abc)
  from c have c4: "first_views v = JStr (lit ''1234'') \<longrightarrow> n = Fin 1234"
    by (simp add: number_1234)
  from f p a1 a2 z c c1 c2 c3 c4 show ?thesis
    by blast
qed

theorem view_count_coercion_witness:
  "normalizeVideo offline (JObj [(lit ''videoId'', JStr (lit ''v1'')), (lit ''views'', JStr (lit ''1234''))])
   = Inr (JObj [(lit ''id'', JStr (lit ''v1'')), (lit ''title'', JStr []), (lit ''channelName'', JNull),
                (lit ''channelId'', JNull), (lit ''durationSeconds'', JNull),
                (lit ''viewCount'', JNum (Fin 1234)), (lit ''publishedText'', JNull),
                (lit ''thumbnails'', JArr [])])
   \<and> first_views (JObj [(lit ''videoId'', JStr (lit ''v1'')), (lit ''views'', JStr (lit ''1234''))])
     = JStr (lit ''1234'')
   \<and> (\<exists>n. field (JObj [(lit ''id'', JStr (lit ''v1'')), (lit ''title'', JStr []),
                        (lit ''channelName'', JNull), (lit ''channelId'', JNull),
                        (lit ''durationSeconds'', JNull), (lit ''viewCount'', JNum (Fin 1234)),
                        (lit ''publishedText'', JNull), (lit ''thumbnails'', JArr [])])
                 (lit ''viewCount'') = JNum n
          \<and> n = StringToNumber (lit ''1234'') \<and> n = Fin 1234)"
proof -
  let ?v = "JObj [(lit ''videoId'', JStr (lit ''v1'')), (lit ''views'', JStr (lit ''1234''))]"
  let ?d = "JObj [(lit ''id'', JStr (lit ''v1'')), (lit ''title'', JStr []),
                  (lit ''channelName'', JNull), (lit ''channelId'', JNull),
                  (lit ''durationSeconds'', JNull), (lit ''viewCount'', JNum (Fin 1234)),
                  (lit ''publishedText'', JNull), (lit ''thumbnails'', JArr [])]"
  have a: "normalizeVideo offline ?v = Inr ?d"
    by (simp add: normalizeVideo_def thumb_urls_def offline_def value_defs parse_defs)
  have f: "first_views ?v = JStr (lit ''1234'')"
    by (simp add: first_views_def nc_def)
  from view_count_coercion [OF a] obtain n where
    n1: "field ?d (lit ''viewCount'') = JNum n"
    and n2: "\<forall>c. first_views ?v = JStr c \<longrightarrow> n = StringToNumber c"
    and n3: "first_views ?v = JStr (lit ''1234'') \<longrightarrow> n = Fin 1234"
    by blast
  from n2 f have n4: "n = StringToNumber (lit ''1234'')"
    by blast
  from n3 f have n5: "n = Fin 1234"
    by blast
  from n1 n4 n5 have "\<exists>n. field ?d (lit ''viewCount'') = JNum n
          \<and> n = StringToNumber (lit ''1234'') \<and> n = Fin 1234"
    by blast
  with a f show ?thesis
    by blast
qed

section \<open>Emitted items\<close>

text \<open>
  Claim C6, at the input where it fails. Invidious answers
  \<^verbatim>\<open>[{ "foo": "bar" }, { "channelId": "UCx", "name": "N" }]\<close> to
  \<^verbatim>\<open>GET /search?q=cat\<close> and to \<^verbatim>\<open>GET /channels?q=cat\<close>. The first entry has no type
  and no id field, and is dropped. The second is taken for a channel because it has a
  \<^verbatim>\<open>channelId\<close>, but \<^verbatim>\<open>normalizeChannel\<close> reads the id from \<^verbatim>\<open>authorId\<close>, \<^verbatim>\<open>id\<close> and
  \<^verbatim>\<open>ucid\<close> only: the item is emitted with \<^verbatim>\<open>id: null\<close>, although the source supplied
  the id \<^verbatim>\<open>"UCx"\<close>.
\<close>

theorem channel_id_dropped:
  "fst (handle_search
          (answering (JArr [JObj [(lit ''foo'', JStr (lit ''bar''))],
                            JObj [(lit ''channelId'', JStr (lit ''UCx'')),
                                  (lit ''name'', JStr (lit ''N''))]]))
          (ask ''/search?q=cat'' ''cat'') fresh)
   = Sent 200
       (JObj [(lit ''items'',
               JArr [JObj [(lit ''kind'', JStr (lit ''channel'')),
                           (lit ''data'', JObj [(lit ''id'', JNull), (lit ''title'', JStr (lit ''N'')),
                                                (lit ''avatar'', JNull)])]]),
              (lit ''nextPage'', JNum (Fin 2))])
   \<and> fst (handle_channels
          (answering (JArr [JObj [(lit ''foo'', JStr (lit ''bar''))],
                            JObj [(lit ''channelId'', JStr (lit ''UCx'')),
                                  (lit ''name'', JStr (lit ''N''))]]))
          (ask ''/channels?q=cat'' ''cat'') fresh)
   = Sent 200
       (JObj [(lit ''items'',
               JArr [JObj [(lit ''kind'', JStr (lit ''channel'')),
                           (lit ''data'', JObj [(lit ''id'', JNull), (lit ''title'', JStr (lit ''N'')),
                                                (lit ''avatar'', JNull)])]]),
              (lit ''nextPage'', JNum (Fin 2))])"
  by (simp add: handle_search_def handle_channels_def search_try_def channels_try_def
        search_inv_urls_def search_pip_urls_def channels_inv_urls_def channels_pip_urls_def
        json_tier_def map_items_def channel_items_def inv_search_item_def inv_is_channel_def
        normalizeChannel_def with_kind_def item_def includes_channel_def items_list_def page_of_def
        infra_defs world_defs value_defs Let_def)

end
